theory Spec2Isabelle
  imports Complex_Main
begin

section \<open>GLSL values\<close>

text \<open>
  The renderer is a GLSL ES 3.00 fragment shader. It exists twice in the repository: as
  the standalone shader file and as the string \<open>fragmentShaderSource\<close> of main.mjs.
  Both are embedded below, each from its own text; the constants of the standalone file
  carry the source's names, those of main.mjs the suffix \<open>_mjs\<close>.

  A GLSL \<open>float\<close> is read as a real number: rounding, infinities and NaN are
  outside this model. Division is HOL's total division. GLSL leaves \<open>x / 0\<close>
  undefined; the only divisors of the shader that can vanish are the length inside
  \<open>normalize\<close> and the height of \<open>u_resolution\<close>. Where one of them
  is zero the value of the model (\<open>x / 0 = 0\<close>) stands for no behaviour of the
  shader; no example below is evaluated at such an input, and the unit length of a
  normal is stated for a difference vector that is not zero.
\<close>

datatype vec2 = Vec2 (ux: real) (uy: real)

datatype vec3 = Vec3 (vx: real) (vy: real) (vz: real)

datatype vec4 = Vec4 (cr: real) (cg: real) (cb: real) (ca: real)

text \<open>A \<open>mat3\<close> is stored by columns, and its constructor takes them in that order.\<close>

datatype mat3 = Mat3 (col0: vec3) (col1: vec3) (col2: vec3)

subsection \<open>Built-in operators and functions\<close>

fun add3 :: "vec3 \<Rightarrow> vec3 \<Rightarrow> vec3" where
  "add3 (Vec3 a b c) (Vec3 d e f) = Vec3 (a + d) (b + e) (c + f)"

fun sub3 :: "vec3 \<Rightarrow> vec3 \<Rightarrow> vec3" where
  "sub3 (Vec3 a b c) (Vec3 d e f) = Vec3 (a - d) (b - e) (c - f)"

fun neg3 :: "vec3 \<Rightarrow> vec3" where
  "neg3 (Vec3 a b c) = Vec3 (- a) (- b) (- c)"

text \<open>\<open>float * vec3\<close> and \<open>vec3 * float\<close>.\<close>

fun smul3 :: "real \<Rightarrow> vec3 \<Rightarrow> vec3" where
  "smul3 k (Vec3 a b c) = Vec3 (k * a) (k * b) (k * c)"

text \<open>\<open>vec3 * vec3\<close> multiplies component by component.\<close>

fun mul3 :: "vec3 \<Rightarrow> vec3 \<Rightarrow> vec3" where
  "mul3 (Vec3 a b c) (Vec3 d e f) = Vec3 (a * d) (b * e) (c * f)"

text \<open>\<open>vec3 + float\<close> adds the scalar to every component.\<close>

fun adds3 :: "vec3 \<Rightarrow> real \<Rightarrow> vec3" where
  "adds3 (Vec3 a b c) k = Vec3 (a + k) (b + k) (c + k)"

fun abs3 :: "vec3 \<Rightarrow> vec3" where
  "abs3 (Vec3 a b c) = Vec3 \<bar>a\<bar> \<bar>b\<bar> \<bar>c\<bar>"

text \<open>\<open>max(vec3, float)\<close>.\<close>

fun max3s :: "vec3 \<Rightarrow> real \<Rightarrow> vec3" where
  "max3s (Vec3 a b c) k = Vec3 (max a k) (max b k) (max c k)"

fun dot3 :: "vec3 \<Rightarrow> vec3 \<Rightarrow> real" where
  "dot3 (Vec3 a b c) (Vec3 d e f) = a * d + b * e + c * f"

fun length3 :: "vec3 \<Rightarrow> real" where
  "length3 (Vec3 a b c) = sqrt (a * a + b * b + c * c)"

fun normalize3 :: "vec3 \<Rightarrow> vec3" where
  "normalize3 (Vec3 a b c) =
     Vec3 (a / length3 (Vec3 a b c)) (b / length3 (Vec3 a b c)) (c / length3 (Vec3 a b c))"

text \<open>\<open>reflect(I, N) = I - 2 * dot(N, I) * N\<close>.\<close>

definition reflect3 :: "vec3 \<Rightarrow> vec3 \<Rightarrow> vec3" where
  "reflect3 i n = sub3 i (smul3 (2 * dot3 n i) n)"

text \<open>\<open>mix(x, y, a) = x * (1 - a) + y * a\<close>.\<close>

definition mix3 :: "vec3 \<Rightarrow> vec3 \<Rightarrow> real \<Rightarrow> vec3" where
  "mix3 x y a = add3 (smul3 (1 - a) x) (smul3 a y)"

text \<open>
  \<open>pow(x, y)\<close> is the real power \<open>x powr y\<close>; GLSL defines it for \<open>x > 0\<close>, and for
  \<open>x = 0\<close> with \<open>y > 0\<close>, where both are \<open>0\<close>.
\<close>

definition pow :: "real \<Rightarrow> real \<Rightarrow> real" where
  "pow x y = x powr y"

fun pow3 :: "vec3 \<Rightarrow> vec3 \<Rightarrow> vec3" where
  "pow3 (Vec3 a b c) (Vec3 d e f) = Vec3 (pow a d) (pow b e) (pow c f)"

fun sub2 :: "vec2 \<Rightarrow> vec2 \<Rightarrow> vec2" where
  "sub2 (Vec2 a b) (Vec2 d e) = Vec2 (a - d) (b - e)"

fun abs2 :: "vec2 \<Rightarrow> vec2" where
  "abs2 (Vec2 a b) = Vec2 \<bar>a\<bar> \<bar>b\<bar>"

fun max2s :: "vec2 \<Rightarrow> real \<Rightarrow> vec2" where
  "max2s (Vec2 a b) k = Vec2 (max a k) (max b k)"

fun length2 :: "vec2 \<Rightarrow> real" where
  "length2 (Vec2 a b) = sqrt (a * a + b * b)"

text \<open>\<open>vec2 - float\<close> and \<open>vec2 * float\<close>.\<close>

fun subs2 :: "vec2 \<Rightarrow> real \<Rightarrow> vec2" where
  "subs2 (Vec2 a b) k = Vec2 (a - k) (b - k)"

fun muls2 :: "vec2 \<Rightarrow> real \<Rightarrow> vec2" where
  "muls2 (Vec2 a b) k = Vec2 (a * k) (b * k)"

text \<open>\<open>mat3 * vec3\<close>: the linear combination of the columns.\<close>

fun mulMV :: "mat3 \<Rightarrow> vec3 \<Rightarrow> vec3" where
  "mulMV (Mat3 c0 c1 c2) (Vec3 a b c) = add3 (add3 (smul3 a c0) (smul3 b c1)) (smul3 c c2)"

text \<open>\<open>mat3 * mat3\<close>: the left factor applied to each column of the right one.\<close>

fun mulMM :: "mat3 \<Rightarrow> mat3 \<Rightarrow> mat3" where
  "mulMM m (Mat3 c0 c1 c2) = Mat3 (mulMV m c0) (mulMV m c1) (mulMV m c2)"

text \<open>The uniforms of the shader, set by the host once per frame.\<close>

record uniforms =
  u_resolution :: vec2
  u_pitch_angle :: real
  u_yaw_angle :: real
  u_led_color :: vec3

section \<open>The standalone fragment shader\<close>

definition PI :: real where
  "PI = 3.14159265358979323846"

definition MATERIAL_PLASTIC :: real where
  "MATERIAL_PLASTIC = 0.0"

definition MATERIAL_GLASS :: real where
  "MATERIAL_GLASS = 1.0"

definition MATERIAL_LED :: real where
  "MATERIAL_LED = 2.0"

subsection \<open>Distance functions\<close>

definition sdBox :: "vec3 \<Rightarrow> vec3 \<Rightarrow> real" where
  "sdBox p b =
     (let q = sub3 (abs3 p) b
      in length3 (max3s q 0.0) + min (max (vx q) (max (vy q) (vz q))) 0.0)"

definition sdOctahedron :: "vec3 \<Rightarrow> real \<Rightarrow> real" where
  "sdOctahedron p s =
     (let p = abs3 p
      in (vx p + vy p + vz p - s) * 0.57735027)"

definition sdCappedCylinder :: "vec3 \<Rightarrow> real \<Rightarrow> real \<Rightarrow> real" where
  "sdCappedCylinder p h r =
     (let d = sub2 (abs2 (Vec2 (length2 (Vec2 (vx p) (vz p))) (vy p))) (Vec2 r h)
      in min (max (ux d) (uy d)) 0.0 + length2 (max2s d 0.0))"

definition sdSphere :: "vec3 \<Rightarrow> real \<Rightarrow> real" where
  "sdSphere p s = length3 p - s"

subsection \<open>Rotation matrices\<close>

definition pitchMatrix :: "real \<Rightarrow> mat3" where
  "pitchMatrix angle =
     Mat3 (Vec3 1.0 0.0 0.0)
          (Vec3 0.0 (cos angle) (- sin angle))
          (Vec3 0.0 (sin angle) (cos angle))"

definition yawMatrix :: "real \<Rightarrow> mat3" where
  "yawMatrix angle =
     Mat3 (Vec3 (cos angle) 0.0 (sin angle))
          (Vec3 0.0 1.0 0.0)
          (Vec3 (- sin angle) 0.0 (cos angle))"

definition rollMatrix :: "real \<Rightarrow> mat3" where
  "rollMatrix angle =
     Mat3 (Vec3 (cos angle) (- sin angle) 0.0)
          (Vec3 (sin angle) (cos angle) 0.0)
          (Vec3 0.0 0.0 1.0)"

subsection \<open>The scene function\<close>

text \<open>
  The locals of \<open>map\<close> are definitions of their own, under the names the source gives
  them, so that a statement can speak of one term of the scene; \<open>map_frag\<close> (the
  source's \<open>map\<close>) is the selection over them.
\<close>

definition rotation :: "uniforms \<Rightarrow> mat3" where
  "rotation U =
     (let pitchAngle = u_pitch_angle U;
          yawAngle = u_yaw_angle U;
          rollAngle = 0.0;
          pitch = pitchMatrix pitchAngle;
          yaw = yawMatrix yawAngle;
          roll = rollMatrix rollAngle
      in mulMM (mulMM roll pitch) yaw)"

definition rotatedP :: "uniforms \<Rightarrow> vec3 \<Rightarrow> vec3" where
  "rotatedP U p = mulMV (rotation U) p"

definition cube :: "uniforms \<Rightarrow> vec3 \<Rightarrow> real" where
  "cube U p = sdBox (rotatedP U p) (Vec3 1.2 1.0 1.0)"

definition octahedron :: "uniforms \<Rightarrow> vec3 \<Rightarrow> real" where
  "octahedron U p =
     (let octahedronPosBase = sub3 (rotatedP U p) (Vec3 0.0 0.0 (- 1.0));
          octahedronPosBase =
            Vec3 (vx octahedronPosBase / 1.2) (vy octahedronPosBase) (vz octahedronPosBase);
          octahedronPos = mulMV (rollMatrix (PI / 4.0)) octahedronPosBase
      in sdOctahedron octahedronPos 1.2)"

definition cylinder :: "uniforms \<Rightarrow> vec3 \<Rightarrow> real" where
  "cylinder U p =
     (let cylinderPos = rotatedP U p;
          cylinderPos = Vec3 (vx cylinderPos) (vy cylinderPos) (vz cylinderPos + 0.75);
          cylinderPos = mul3 cylinderPos (Vec3 0.125 1.0 1.0)
      in sdCappedCylinder cylinderPos 1.0 0.2)"

definition cubeWithHole :: "uniforms \<Rightarrow> vec3 \<Rightarrow> real" where
  "cubeWithHole U p = max (cube U p) (- octahedron U p)"

definition ledSphere :: "uniforms \<Rightarrow> vec3 \<Rightarrow> real" where
  "ledSphere U p =
     (let ledPos = sub3 (rotatedP U p) (Vec3 1.1 (- 0.9) (- 1.0))
      in sdSphere ledPos 0.02)"

definition cylinderInCube :: "uniforms \<Rightarrow> vec3 \<Rightarrow> real" where
  "cylinderInCube U p = max (cylinder U p) (cube U p)"

text \<open>The result is \<open>vec2(minDist, material)\<close>.\<close>

definition map_frag :: "uniforms \<Rightarrow> vec3 \<Rightarrow> vec2" where
  "map_frag U p =
     (let minDist = cubeWithHole U p;
          material = MATERIAL_PLASTIC;
          (minDist, material) =
            (if cylinderInCube U p < minDist then (cylinderInCube U p, MATERIAL_GLASS)
             else (minDist, material));
          (minDist, material) =
            (if ledSphere U p < minDist then (ledSphere U p, MATERIAL_LED)
             else (minDist, material))
      in Vec2 minDist material)"

subsection \<open>Materials\<close>

definition glassMaterial :: "vec3 \<Rightarrow> vec3 \<Rightarrow> vec3 \<Rightarrow> real \<Rightarrow> vec3" where
  "glassMaterial normal viewDir lightDir diff =
     (let baseColor = Vec3 0.0 0.0 0.0;
          reflectDir = reflect3 (neg3 viewDir) normal;
          fresnel = pow (1.0 - max 0.0 (dot3 viewDir normal)) 3.0;
          halfDir = normalize3 (add3 lightDir viewDir);
          spec = pow (max 0.0 (dot3 normal halfDir)) 64.0;
          litColor = adds3 (adds3 baseColor (fresnel * 0.3)) (spec * 0.8);
          litColor = mix3 litColor (Vec3 0.1 0.1 0.1) 0.7
      in litColor)"

definition plasticMaterial :: "vec3 \<Rightarrow> vec3 \<Rightarrow> vec3 \<Rightarrow> real \<Rightarrow> vec3" where
  "plasticMaterial normal viewDir lightDir diff =
     (let materialColor = Vec3 0.9 0.85 0.7;
          softDiff = 0.4 + 0.6 * diff;
          halfDir = normalize3 (add3 lightDir viewDir);
          spec = pow (max 0.0 (dot3 normal halfDir)) 16.0 * 0.2
      in adds3 (smul3 softDiff materialColor) spec)"

definition ledMaterial :: "uniforms \<Rightarrow> vec3 \<Rightarrow> vec3 \<Rightarrow> vec3 \<Rightarrow> real \<Rightarrow> vec3" where
  "ledMaterial U normal viewDir lightDir diff = u_led_color U"

subsection \<open>Normal, ray marcher and pixel\<close>

text \<open>The standalone shader samples the scene at \<open>p\<close> and one step back along each axis.\<close>

definition calcNormal :: "uniforms \<Rightarrow> vec3 \<Rightarrow> vec3" where
  "calcNormal U p =
     (let eps = 0.001;
          h = Vec2 eps 0.0;
          reference = ux (map_frag U p)
      in normalize3 (Vec3
           (reference - ux (map_frag U (sub3 p (Vec3 (ux h) (uy h) (uy h)))))
           (reference - ux (map_frag U (sub3 p (Vec3 (uy h) (ux h) (uy h)))))
           (reference - ux (map_frag U (sub3 p (Vec3 (uy h) (uy h) (ux h)))))))"

text \<open>
  The \<open>for\<close> loop of \<open>rayMarch\<close>, by the number \<open>n = maxSteps - i\<close> of iterations
  that are left; \<open>t\<close> and \<open>materialId\<close> are the variables the loop updates.
\<close>

fun rayMarch_loop :: "uniforms \<Rightarrow> vec3 \<Rightarrow> vec3 \<Rightarrow> nat \<Rightarrow> real \<Rightarrow> real \<Rightarrow> vec2" where
  "rayMarch_loop U ro rd 0 t materialId = Vec2 t materialId"
| "rayMarch_loop U ro rd (Suc n) t materialId =
     (let maxDist = 100.0;
          eps = 0.001;
          p = add3 ro (smul3 t rd);
          result = map_frag U p;
          d = ux result;
          materialId = uy result
      in if d < eps \<or> t > maxDist then Vec2 t materialId
         else rayMarch_loop U ro rd n (t + d) materialId)"

definition rayMarch :: "uniforms \<Rightarrow> vec3 \<Rightarrow> vec3 \<Rightarrow> vec2" where
  "rayMarch U ro rd =
     (let t = 0.0;
          maxSteps = 100;
          materialId = - 1.0
      in rayMarch_loop U ro rd maxSteps t materialId)"

text \<open>
  \<open>main\<close> from the call of \<open>rayMarch\<close> to the end, as a function of the camera ray
  \<open>(ro, rd)\<close>; the value is \<open>fragColor\<close>.
\<close>

definition main_ray :: "uniforms \<Rightarrow> vec3 \<Rightarrow> vec3 \<Rightarrow> vec4" where
  "main_ray U ro rd =
     (let marchResult = rayMarch U ro rd;
          t = ux marchResult;
          materialId = uy marchResult;
          color = Vec4 0.0 0.0 0.0 0.0
      in if t < 100.0 then
           (let p = add3 ro (smul3 t rd);
                normal = calcNormal U p;
                lightDir = normalize3 (Vec3 0.5 0.5 (- 1.0));
                viewDir = normalize3 (neg3 rd);
                diff = max 0.0 (dot3 normal lightDir);
                litColor =
                  (if materialId = MATERIAL_GLASS then
                     glassMaterial normal viewDir lightDir diff
                   else if materialId = MATERIAL_PLASTIC then
                     plasticMaterial normal viewDir lightDir diff
                   else if materialId = MATERIAL_LED then
                     ledMaterial U normal viewDir lightDir diff
                   else Vec3 1.0 0.0 1.0);
                litColor = pow3 litColor (Vec3 (1.0 / 2.2) (1.0 / 2.2) (1.0 / 2.2))
            in Vec4 (vx litColor) (vy litColor) (vz litColor) 1.0)
         else color)"

text \<open>\<open>main\<close>, with the varying \<open>v_uv\<close> as its argument.\<close>

definition main_frag :: "uniforms \<Rightarrow> vec2 \<Rightarrow> vec4" where
  "main_frag U v_uv =
     (let uv = muls2 (subs2 v_uv 0.5) 2.0;
          uv = Vec2 (ux uv * (ux (u_resolution U) / uy (u_resolution U))) (uy uv);
          ro = Vec3 0.0 0.0 (- 2.35);
          rd = normalize3 (Vec3 (ux uv) (uy uv) 1.0)
      in main_ray U ro rd)"

section \<open>The fragment shader of main.mjs\<close>

text \<open>The string \<open>fragmentShaderSource\<close>, function by function.\<close>

definition PI_mjs :: real where
  "PI_mjs = 3.14159265358979323846"

definition MATERIAL_PLASTIC_mjs :: real where
  "MATERIAL_PLASTIC_mjs = 0.0"

definition MATERIAL_GLASS_mjs :: real where
  "MATERIAL_GLASS_mjs = 1.0"

definition MATERIAL_LED_mjs :: real where
  "MATERIAL_LED_mjs = 2.0"

definition sdBox_mjs :: "vec3 \<Rightarrow> vec3 \<Rightarrow> real" where
  "sdBox_mjs p b =
     (let q = sub3 (abs3 p) b
      in length3 (max3s q 0.0) + min (max (vx q) (max (vy q) (vz q))) 0.0)"

definition sdOctahedron_mjs :: "vec3 \<Rightarrow> real \<Rightarrow> real" where
  "sdOctahedron_mjs p s =
     (let p = abs3 p
      in (vx p + vy p + vz p - s) * 0.57735027)"

definition sdCappedCylinder_mjs :: "vec3 \<Rightarrow> real \<Rightarrow> real \<Rightarrow> real" where
  "sdCappedCylinder_mjs p h r =
     (let d = sub2 (abs2 (Vec2 (length2 (Vec2 (vx p) (vz p))) (vy p))) (Vec2 r h)
      in min (max (ux d) (uy d)) 0.0 + length2 (max2s d 0.0))"

definition sdSphere_mjs :: "vec3 \<Rightarrow> real \<Rightarrow> real" where
  "sdSphere_mjs p s = length3 p - s"

definition pitchMatrix_mjs :: "real \<Rightarrow> mat3" where
  "pitchMatrix_mjs angle =
     Mat3 (Vec3 1.0 0.0 0.0)
          (Vec3 0.0 (cos angle) (- sin angle))
          (Vec3 0.0 (sin angle) (cos angle))"

definition yawMatrix_mjs :: "real \<Rightarrow> mat3" where
  "yawMatrix_mjs angle =
     Mat3 (Vec3 (cos angle) 0.0 (sin angle))
          (Vec3 0.0 1.0 0.0)
          (Vec3 (- sin angle) 0.0 (cos angle))"

definition rollMatrix_mjs :: "real \<Rightarrow> mat3" where
  "rollMatrix_mjs angle =
     Mat3 (Vec3 (cos angle) (- sin angle) 0.0)
          (Vec3 (sin angle) (cos angle) 0.0)
          (Vec3 0.0 0.0 1.0)"

text \<open>\<open>map\<close> of main.mjs, in one piece.\<close>

definition map_mjs :: "uniforms \<Rightarrow> vec3 \<Rightarrow> vec2" where
  "map_mjs U p =
     (let pitchAngle = u_pitch_angle U;
          yawAngle = u_yaw_angle U;
          rollAngle = 0.0;
          pitch = pitchMatrix_mjs pitchAngle;
          yaw = yawMatrix_mjs yawAngle;
          roll = rollMatrix_mjs rollAngle;
          rotation = mulMM (mulMM roll pitch) yaw;
          rotatedP = mulMV rotation p;
          cube = sdBox_mjs rotatedP (Vec3 1.2 1.0 1.0);
          octahedronPosBase = sub3 rotatedP (Vec3 0.0 0.0 (- 1.0));
          octahedronPosBase =
            Vec3 (vx octahedronPosBase / 1.2) (vy octahedronPosBase) (vz octahedronPosBase);
          octahedronPos = mulMV (rollMatrix_mjs (PI_mjs / 4.0)) octahedronPosBase;
          octahedron = sdOctahedron_mjs octahedronPos 1.2;
          cylinderPos = rotatedP;
          cylinderPos = Vec3 (vx cylinderPos) (vy cylinderPos) (vz cylinderPos + 0.75);
          cylinderPos = mul3 cylinderPos (Vec3 0.125 1.0 1.0);
          cylinder = sdCappedCylinder_mjs cylinderPos 1.0 0.2;
          cubeWithHole = max cube (- octahedron);
          ledPos = sub3 rotatedP (Vec3 1.1 (- 0.9) (- 1.0));
          ledSphere = sdSphere_mjs ledPos 0.02;
          cylinderInCube = max cylinder cube;
          minDist = cubeWithHole;
          material = MATERIAL_PLASTIC_mjs;
          (minDist, material) =
            (if cylinderInCube < minDist then (cylinderInCube, MATERIAL_GLASS_mjs)
             else (minDist, material));
          (minDist, material) =
            (if ledSphere < minDist then (ledSphere, MATERIAL_LED_mjs)
             else (minDist, material))
      in Vec2 minDist material)"

definition glassMaterial_mjs :: "vec3 \<Rightarrow> vec3 \<Rightarrow> vec3 \<Rightarrow> real \<Rightarrow> vec3" where
  "glassMaterial_mjs normal viewDir lightDir diff =
     (let baseColor = Vec3 0.0 0.0 0.0;
          reflectDir = reflect3 (neg3 viewDir) normal;
          fresnel = pow (1.0 - max 0.0 (dot3 viewDir normal)) 3.0;
          halfDir = normalize3 (add3 lightDir viewDir);
          spec = pow (max 0.0 (dot3 normal halfDir)) 64.0;
          litColor = adds3 (adds3 baseColor (fresnel * 0.3)) (spec * 0.8);
          litColor = mix3 litColor (Vec3 0.1 0.1 0.1) 0.7
      in litColor)"

definition plasticMaterial_mjs :: "vec3 \<Rightarrow> vec3 \<Rightarrow> vec3 \<Rightarrow> real \<Rightarrow> vec3" where
  "plasticMaterial_mjs normal viewDir lightDir diff =
     (let materialColor = Vec3 0.9 0.85 0.7;
          softDiff = 0.4 + 0.6 * diff;
          halfDir = normalize3 (add3 lightDir viewDir);
          spec = pow (max 0.0 (dot3 normal halfDir)) 16.0 * 0.2
      in adds3 (smul3 softDiff materialColor) spec)"

definition ledMaterial_mjs :: "uniforms \<Rightarrow> vec3 \<Rightarrow> vec3 \<Rightarrow> vec3 \<Rightarrow> real \<Rightarrow> vec3" where
  "ledMaterial_mjs U normal viewDir lightDir diff = u_led_color U"

text \<open>main.mjs samples the scene one step forward and one step back along each axis.\<close>

definition calcNormal_mjs :: "uniforms \<Rightarrow> vec3 \<Rightarrow> vec3" where
  "calcNormal_mjs U p =
     (let eps = 0.001;
          h = Vec2 eps 0.0
      in normalize3 (Vec3
           (ux (map_mjs U (add3 p (Vec3 (ux h) (uy h) (uy h))))
              - ux (map_mjs U (sub3 p (Vec3 (ux h) (uy h) (uy h)))))
           (ux (map_mjs U (add3 p (Vec3 (uy h) (ux h) (uy h))))
              - ux (map_mjs U (sub3 p (Vec3 (uy h) (ux h) (uy h)))))
           (ux (map_mjs U (add3 p (Vec3 (uy h) (uy h) (ux h))))
              - ux (map_mjs U (sub3 p (Vec3 (uy h) (uy h) (ux h)))))))"

fun rayMarch_loop_mjs :: "uniforms \<Rightarrow> vec3 \<Rightarrow> vec3 \<Rightarrow> nat \<Rightarrow> real \<Rightarrow> real \<Rightarrow> vec2" where
  "rayMarch_loop_mjs U ro rd 0 t materialId = Vec2 t materialId"
| "rayMarch_loop_mjs U ro rd (Suc n) t materialId =
     (let maxDist = 100.0;
          eps = 0.001;
          p = add3 ro (smul3 t rd);
          result = map_mjs U p;
          d = ux result;
          materialId = uy result
      in if d < eps \<or> t > maxDist then Vec2 t materialId
         else rayMarch_loop_mjs U ro rd n (t + d) materialId)"

definition rayMarch_mjs :: "uniforms \<Rightarrow> vec3 \<Rightarrow> vec3 \<Rightarrow> vec2" where
  "rayMarch_mjs U ro rd =
     (let t = 0.0;
          maxSteps = 100;
          materialId = - 1.0
      in rayMarch_loop_mjs U ro rd maxSteps t materialId)"

definition main_ray_mjs :: "uniforms \<Rightarrow> vec3 \<Rightarrow> vec3 \<Rightarrow> vec4" where
  "main_ray_mjs U ro rd =
     (let marchResult = rayMarch_mjs U ro rd;
          t = ux marchResult;
          materialId = uy marchResult;
          color = Vec4 0.0 0.0 0.0 0.0
      in if t < 100.0 then
           (let p = add3 ro (smul3 t rd);
                normal = calcNormal_mjs U p;
                lightDir = normalize3 (Vec3 0.5 0.5 (- 1.0));
                viewDir = normalize3 (neg3 rd);
                diff = max 0.0 (dot3 normal lightDir);
                litColor =
                  (if materialId = MATERIAL_GLASS_mjs then
                     glassMaterial_mjs normal viewDir lightDir diff
                   else if materialId = MATERIAL_PLASTIC_mjs then
                     plasticMaterial_mjs normal viewDir lightDir diff
                   else if materialId = MATERIAL_LED_mjs then
                     ledMaterial_mjs U normal viewDir lightDir diff
                   else Vec3 1.0 0.0 1.0);
                litColor = pow3 litColor (Vec3 (1.0 / 2.2) (1.0 / 2.2) (1.0 / 2.2))
            in Vec4 (vx litColor) (vy litColor) (vz litColor) 1.0)
         else color)"

definition main_mjs :: "uniforms \<Rightarrow> vec2 \<Rightarrow> vec4" where
  "main_mjs U v_uv =
     (let uv = muls2 (subs2 v_uv 0.5) 2.0;
          uv = Vec2 (ux uv * (ux (u_resolution U) / uy (u_resolution U))) (uy uv);
          ro = Vec3 0.0 0.0 (- 2.75);
          rd = normalize3 (Vec3 (ux uv) (uy uv) 1.0)
      in main_ray_mjs U ro rd)"

section \<open>Frames used in the examples\<close>

text \<open>A square viewport, the indicator off, the body not rotated.\<close>

definition frame_level :: uniforms where
  "frame_level =
     \<lparr>u_resolution = Vec2 1 1, u_pitch_angle = 0, u_yaw_angle = 0, u_led_color = Vec3 0 0 0\<rparr>"

text \<open>A square viewport, the indicator off, the body tilted so that its top faces the light.\<close>

definition frame_tilted :: uniforms where
  "frame_tilted =
     \<lparr>u_resolution = Vec2 1 1, u_pitch_angle = - arctan (12 / 5),
      u_yaw_angle = - arctan (5 / 12), u_led_color = Vec3 0 0 0\<rparr>"

text \<open>A square viewport, the indicator off, the body turned a quarter about the vertical axis.\<close>

definition frame_quarter :: uniforms where
  "frame_quarter =
     \<lparr>u_resolution = Vec2 1 1, u_pitch_angle = 0, u_yaw_angle = pi / 2, u_led_color = Vec3 0 0 0\<rparr>"



section \<open>The normal estimators and the pixel pipeline in the words of the specification\<close>

text \<open>
  The central difference of the distance component of a scene function with the step
  \<open>0.001\<close>, before it is normalised, and the one-sided variant that takes the sample
  at the point itself as its reference.
\<close>

definition centralDifference :: "(vec3 \<Rightarrow> vec2) \<Rightarrow> vec3 \<Rightarrow> vec3" where
  "centralDifference scene p =
     Vec3 (ux (scene (add3 p (Vec3 0.001 0 0))) - ux (scene (sub3 p (Vec3 0.001 0 0))))
          (ux (scene (add3 p (Vec3 0 0.001 0))) - ux (scene (sub3 p (Vec3 0 0.001 0))))
          (ux (scene (add3 p (Vec3 0 0 0.001))) - ux (scene (sub3 p (Vec3 0 0 0.001))))"

definition oneSidedDifference :: "(vec3 \<Rightarrow> vec2) \<Rightarrow> vec3 \<Rightarrow> vec3" where
  "oneSidedDifference scene p =
     Vec3 (ux (scene p) - ux (scene (sub3 p (Vec3 0.001 0 0))))
          (ux (scene p) - ux (scene (sub3 p (Vec3 0 0.001 0))))
          (ux (scene p) - ux (scene (sub3 p (Vec3 0 0 0.001))))"

text \<open>
  The pixel pipeline with the camera distance and the normal estimator left open: the
  coordinate in \<open>[-1, 1]\<close> with its X scaled by the aspect ratio, the camera on
  the Z axis looking along \<open>(u, v, 1)\<close>, transparent on a miss, and on a hit the
  material of the returned id under the fixed light, gamma corrected, with alpha 1.
\<close>

definition pixelPipeline ::
  "real \<Rightarrow> (uniforms \<Rightarrow> vec3 \<Rightarrow> vec3) \<Rightarrow> uniforms \<Rightarrow> vec2 \<Rightarrow> vec4" where
  "pixelPipeline cameraZ normalAt U ndc =
     (let u = (ux ndc - 0.5) * 2.0 * (ux (u_resolution U) / uy (u_resolution U));
          v = (uy ndc - 0.5) * 2.0;
          origin = Vec3 0 0 cameraZ;
          direction = normalize3 (Vec3 u v 1);
          hit = rayMarch U origin direction
      in if ux hit < 100 then
           (let point = add3 origin (smul3 (ux hit) direction);
                n = normalAt U point;
                light = normalize3 (Vec3 0.5 0.5 (- 1));
                view = normalize3 (neg3 direction);
                diffuse = max 0 (dot3 n light);
                colour =
                  (if uy hit = MATERIAL_GLASS then glassMaterial n view light diffuse
                   else if uy hit = MATERIAL_PLASTIC then plasticMaterial n view light diffuse
                   else if uy hit = MATERIAL_LED then ledMaterial U n view light diffuse
                   else Vec3 1 0 1)
            in Vec4 (pow (vx colour) (1 / 2.2)) (pow (vy colour) (1 / 2.2))
                    (pow (vz colour) (1 / 2.2)) 1)
         else Vec4 0 0 0 0)"

section \<open>Auxiliary facts\<close>

subsection \<open>Lengths\<close>

lemma length2_axis [simp]: "length2 (Vec2 a 0) = \<bar>a\<bar>" "length2 (Vec2 0 b) = \<bar>b\<bar>"
  by simp_all

lemma length3_axis [simp]:
  "length3 (Vec3 a 0 0) = \<bar>a\<bar>" "length3 (Vec3 0 b 0) = \<bar>b\<bar>" "length3 (Vec3 0 0 c) = \<bar>c\<bar>"
  by simp_all

declare length2.simps [simp del] length3.simps [simp del]

subsection \<open>The rotation applied by the scene function\<close>

lemma rotation_formula:
  "rotation U =
     Mat3 (Vec3 (cos (u_yaw_angle U)) (sin (u_pitch_angle U) * sin (u_yaw_angle U))
                (cos (u_pitch_angle U) * sin (u_yaw_angle U)))
          (Vec3 0 (cos (u_pitch_angle U)) (- sin (u_pitch_angle U)))
          (Vec3 (- sin (u_yaw_angle U)) (sin (u_pitch_angle U) * cos (u_yaw_angle U))
                (cos (u_pitch_angle U) * cos (u_yaw_angle U)))"
  by (simp add: rotation_def pitchMatrix_def yawMatrix_def rollMatrix_def Let_def mult.commute)

lemma rotatedP_formula:
  "rotatedP U (Vec3 x y z) =
     Vec3 (x * cos (u_yaw_angle U) - z * sin (u_yaw_angle U))
          (x * (sin (u_pitch_angle U) * sin (u_yaw_angle U)) + y * cos (u_pitch_angle U)
             + z * (sin (u_pitch_angle U) * cos (u_yaw_angle U)))
          (x * (cos (u_pitch_angle U) * sin (u_yaw_angle U)) - y * sin (u_pitch_angle U)
             + z * (cos (u_pitch_angle U) * cos (u_yaw_angle U)))"
  by (simp add: rotatedP_def rotation_formula)

lemma rotatedP_zero:
  "u_pitch_angle U = 0 \<Longrightarrow> u_yaw_angle U = 0 \<Longrightarrow> rotatedP U p = p"
  by (cases p) (simp add: rotatedP_formula)

subsection \<open>The scene at the origin of the rotated frame\<close>

lemma cube_origin: "rotatedP U p = Vec3 0 0 0 \<Longrightarrow> cube U p = - 1"
  by (simp add: cube_def sdBox_def)

lemma octahedron_origin:
  "rotatedP U p = Vec3 0 0 0 \<Longrightarrow> octahedron U p = - (0.2 * 0.57735027)"
  by (simp add: octahedron_def sdOctahedron_def rollMatrix_def)

lemma cylinder_origin: "rotatedP U p = Vec3 0 0 0 \<Longrightarrow> cylinder U p = 0.55"
  by (simp add: cylinder_def sdCappedCylinder_def)

lemma ledSphere_origin:
  assumes "rotatedP U p = Vec3 0 0 0"
  shows "0.98 \<le> ledSphere U p"
proof -
  have "sqrt 1 \<le> sqrt (1.1 * 1.1 + 0.9 * 0.9 + 1 * 1)"
    by (rule real_sqrt_le_mono) simp
  then show ?thesis
    using assms by (simp add: ledSphere_def sdSphere_def length3.simps)
qed

lemma map_origin:
  assumes "u_pitch_angle U = 0" and "u_yaw_angle U = 0"
  shows "map_frag U (Vec3 0 0 0) = Vec2 (0.2 * 0.57735027) MATERIAL_PLASTIC"
proof -
  have r: "rotatedP U (Vec3 0 0 0) = Vec3 0 0 0"
    using assms by (rule rotatedP_zero)
  note c = cube_origin [OF r] octahedron_origin [OF r] cylinder_origin [OF r]
  have l: "0.98 \<le> ledSphere U (Vec3 0 0 0)"
    using r by (rule ledSphere_origin)
  have h: "cubeWithHole U (Vec3 0 0 0) = 0.2 * 0.57735027"
    by (simp add: cubeWithHole_def c)
  have g: "cylinderInCube U (Vec3 0 0 0) = 0.55"
    by (simp add: cylinderInCube_def c)
  show ?thesis
    using l by (simp add: map_frag_def h g)
qed

subsection \<open>The selection of the scene function\<close>

lemma map_frag_min:
  "ux (map_frag U p) = min (min (cubeWithHole U p) (cylinderInCube U p)) (ledSphere U p)"
  by (simp add: map_frag_def Let_def min_def)

lemma map_frag_material:
  "uy (map_frag U p) =
     (if ledSphere U p < min (cubeWithHole U p) (cylinderInCube U p) then MATERIAL_LED
      else if cylinderInCube U p < cubeWithHole U p then MATERIAL_GLASS
      else MATERIAL_PLASTIC)"
  by (simp add: map_frag_def Let_def min_def)

lemma map_frag_material_range:
  "uy (map_frag U p) \<in> {MATERIAL_PLASTIC, MATERIAL_GLASS, MATERIAL_LED}"
  by (simp add: map_frag_material)

lemma rayMarch_loop_material:
  "uy (rayMarch_loop U ro rd (Suc n) t m) \<in> {MATERIAL_PLASTIC, MATERIAL_GLASS, MATERIAL_LED}"
proof (induction n arbitrary: t m)
  case 0
  show ?case using map_frag_material_range by (simp add: Let_def)
next
  case (Suc n)
  show ?case
    apply (subst rayMarch_loop.simps(2))
    using map_frag_material_range Suc.IH
    apply (simp add: Let_def del: rayMarch_loop.simps(2))
    done
qed

lemma rayMarch_material: "uy (rayMarch U ro rd) \<in> {MATERIAL_PLASTIC, MATERIAL_GLASS, MATERIAL_LED}"
proof -
  have "(100::nat) = Suc 99" by simp
  then show ?thesis unfolding rayMarch_def Let_def
    using rayMarch_loop_material[of U ro rd 99 0 "- 1"] by (simp del: rayMarch_loop.simps)
qed

subsection \<open>Lower bounds on the distance functions\<close>

lemma sdBox_formula:
  "sdBox (Vec3 x y z) (Vec3 a b c) =
     sqrt (max (\<bar>x\<bar> - a) 0 * max (\<bar>x\<bar> - a) 0 + max (\<bar>y\<bar> - b) 0 * max (\<bar>y\<bar> - b) 0
           + max (\<bar>z\<bar> - c) 0 * max (\<bar>z\<bar> - c) 0)
     + min (max (\<bar>x\<bar> - a) (max (\<bar>y\<bar> - b) (\<bar>z\<bar> - c))) 0"
  by (simp add: sdBox_def length3.simps)

lemma sqrt_sum3_ge:
  "\<bar>a\<bar> \<le> sqrt (a * a + b * b + c * c)" "\<bar>b\<bar> \<le> sqrt (a * a + b * b + c * c)" "\<bar>c\<bar> \<le> sqrt (a * a + b * b + c * c)"
proof -
  have "\<bar>a\<bar>\<^sup>2 \<le> a * a + b * b + c * c" by (simp add: power2_eq_square)
  then show "\<bar>a\<bar> \<le> sqrt (a * a + b * b + c * c)" by (rule real_le_rsqrt)
  have "\<bar>b\<bar>\<^sup>2 \<le> a * a + b * b + c * c" by (simp add: power2_eq_square)
  then show "\<bar>b\<bar> \<le> sqrt (a * a + b * b + c * c)" by (rule real_le_rsqrt)
  have "\<bar>c\<bar>\<^sup>2 \<le> a * a + b * b + c * c" by (simp add: power2_eq_square)
  then show "\<bar>c\<bar> \<le> sqrt (a * a + b * b + c * c)" by (rule real_le_rsqrt)
qed

lemma length3_ge:
  "\<bar>a\<bar> \<le> length3 (Vec3 a b c)" "\<bar>b\<bar> \<le> length3 (Vec3 a b c)" "\<bar>c\<bar> \<le> length3 (Vec3 a b c)"
  by (simp_all add: length3.simps sqrt_sum3_ge)

lemma box_core:
  fixes qx qy qz s :: real
  assumes "\<bar>max qx 0\<bar> \<le> s" "\<bar>max qy 0\<bar> \<le> s" "\<bar>max qz 0\<bar> \<le> s"
  shows "qx \<le> s + min (max qx (max qy qz)) 0" "qy \<le> s + min (max qx (max qy qz)) 0"
    "qz \<le> s + min (max qx (max qy qz)) 0"
  using assms by linarith+

lemma sdBox_ge:
  "\<bar>x\<bar> - a \<le> sdBox (Vec3 x y z) (Vec3 a b c)"
  "\<bar>y\<bar> - b \<le> sdBox (Vec3 x y z) (Vec3 a b c)"
  "\<bar>z\<bar> - c \<le> sdBox (Vec3 x y z) (Vec3 a b c)"
  unfolding sdBox_formula by (rule box_core; rule sqrt_sum3_ge)+

lemma cube_ge:
  assumes "rotatedP U p = Vec3 x y z"
  shows "\<bar>x\<bar> - 1.2 \<le> cube U p" "\<bar>y\<bar> - 1 \<le> cube U p" "\<bar>z\<bar> - 1 \<le> cube U p"
  using sdBox_ge [where x = x and y = y and z = z and a = "1.2" and b = 1 and c = 1]
  by (simp_all add: cube_def assms)

lemma ledSphere_ge:
  assumes "rotatedP U p = Vec3 x y z"
  shows "\<bar>x - 11 / 10\<bar> - 1 / 50 \<le> ledSphere U p" "\<bar>y + 9 / 10\<bar> - 1 / 50 \<le> ledSphere U p"
    "\<bar>z + 1\<bar> - 1 / 50 \<le> ledSphere U p"
  using length3_ge [where a = "x - 11 / 10" and b = "y + 9 / 10" and c = "z + 1"]
  by (simp_all add: ledSphere_def sdSphere_def assms)

lemma cube_le_cubeWithHole: "cube U p \<le> cubeWithHole U p"
  by (simp add: cubeWithHole_def)

lemma cube_le_cylinderInCube: "cube U p \<le> cylinderInCube U p"
  by (simp add: cylinderInCube_def)

lemma map_outside:
  assumes "u_pitch_angle U = 0" and "u_yaw_angle U = 0"
    and "1.3 < \<bar>x\<bar> \<or> 1.3 < \<bar>y\<bar> \<or> 1.3 < \<bar>z\<bar>"
  shows "0 < ux (map_frag U (Vec3 x y z))"
proof -
  have r: "rotatedP U (Vec3 x y z) = Vec3 x y z"
    using assms(1,2) by (rule rotatedP_zero)
  have c: "0 < cube U (Vec3 x y z)"
    using cube_ge [OF r] assms(3) by linarith
  have l: "0 < ledSphere U (Vec3 x y z)"
    using ledSphere_ge [OF r] assms(3) by linarith
  show ?thesis
    using c l cube_le_cubeWithHole [of U "Vec3 x y z"] cube_le_cylinderInCube [of U "Vec3 x y z"]
    by (simp add: map_frag_min)
qed

subsection \<open>The functions the two shaders share\<close>

lemma consts_mjs:
  "PI_mjs = PI" "MATERIAL_PLASTIC_mjs = MATERIAL_PLASTIC" "MATERIAL_GLASS_mjs = MATERIAL_GLASS"
  "MATERIAL_LED_mjs = MATERIAL_LED"
  by (simp_all add: PI_mjs_def PI_def MATERIAL_PLASTIC_mjs_def MATERIAL_PLASTIC_def
      MATERIAL_GLASS_mjs_def MATERIAL_GLASS_def MATERIAL_LED_mjs_def MATERIAL_LED_def)

lemma sd_mjs:
  "sdBox_mjs = sdBox" "sdOctahedron_mjs = sdOctahedron" "sdCappedCylinder_mjs = sdCappedCylinder"
  "sdSphere_mjs = sdSphere"
  by (intro ext, simp add: sdBox_mjs_def sdBox_def sdOctahedron_mjs_def sdOctahedron_def
      sdCappedCylinder_mjs_def sdCappedCylinder_def sdSphere_mjs_def sdSphere_def)+

lemma matrix_mjs:
  "pitchMatrix_mjs = pitchMatrix" "yawMatrix_mjs = yawMatrix" "rollMatrix_mjs = rollMatrix"
  by (intro ext, simp add: pitchMatrix_mjs_def pitchMatrix_def yawMatrix_mjs_def yawMatrix_def
      rollMatrix_mjs_def rollMatrix_def)+

lemma map_mjs_eq: "map_mjs U p = map_frag U p"
  unfolding map_mjs_def map_frag_def cubeWithHole_def cylinderInCube_def ledSphere_def cylinder_def
    octahedron_def cube_def rotatedP_def rotation_def consts_mjs sd_mjs matrix_mjs Let_def
  by (rule refl)

lemma material_mjs:
  "glassMaterial_mjs = glassMaterial" "plasticMaterial_mjs = plasticMaterial"
  "ledMaterial_mjs = ledMaterial"
  by (intro ext, simp add: glassMaterial_mjs_def glassMaterial_def plasticMaterial_mjs_def
      plasticMaterial_def ledMaterial_mjs_def ledMaterial_def)+

lemma rayMarch_loop_mjs_eq: "rayMarch_loop_mjs U ro rd n t m = rayMarch_loop U ro rd n t m"
  by (induction n arbitrary: t m) (simp_all add: map_mjs_eq Let_def)

lemma rayMarch_mjs_eq: "rayMarch_mjs U ro rd = rayMarch U ro rd"
  by (simp add: rayMarch_mjs_def rayMarch_def rayMarch_loop_mjs_eq del: rayMarch_loop.simps rayMarch_loop_mjs.simps)

subsection \<open>Scaled vectors\<close>

lemma length3_nonneg [simp]: "0 \<le> length3 v"
  by (cases v) (simp add: length3.simps)

lemma length3_smul3: "length3 (smul3 k v) = \<bar>k\<bar> * length3 v"
proof (cases v)
  case (Vec3 a b c)
  have "(k * a) * (k * a) + (k * b) * (k * b) + (k * c) * (k * c) = (k * k) * (a * a + b * b + c * c)"
    by (simp add: algebra_simps)
  then show ?thesis
    by (simp add: Vec3 length3.simps real_sqrt_mult)
qed

lemma add3_self: "add3 v v = smul3 2 v"
  by (cases v) simp

lemma normalize3_smul3:
  assumes "length3 v = 1" and "0 < k"
  shows "normalize3 (smul3 k v) = v"
proof (cases v)
  case (Vec3 a b c)
  have "length3 (smul3 k (Vec3 a b c)) = k"
    using assms length3_smul3 [of k v] by (simp add: Vec3)
  then show ?thesis
    using assms(2) by (simp add: Vec3)
qed

lemma dot3_self: "dot3 v v = length3 v * length3 v"
  by (cases v) (simp add: length3.simps)

subsection \<open>The plastic shader with all directions equal\<close>

lemma plasticMaterial_aligned:
  assumes "length3 n = 1"
  shows "plasticMaterial n n n 1 = Vec3 (11 / 10) (21 / 20) (9 / 10)"
proof -
  have h: "normalize3 (add3 n n) = n"
    using assms by (simp add: add3_self normalize3_smul3)
  have d: "dot3 n n = 1"
    using assms by (simp add: dot3_self)
  show ?thesis
    by (simp add: plasticMaterial_def h d pow_def)
qed

subsection \<open>The octahedron and the cylinder in the rotated frame\<close>

lemma octahedron_formula:
  assumes "rotatedP U p = Vec3 x y z"
  shows "octahedron U p =
     (\<bar>x / 1.2 * cos (PI / 4) + y * sin (PI / 4)\<bar> + \<bar>y * cos (PI / 4) - x / 1.2 * sin (PI / 4)\<bar>
        + \<bar>z + 1\<bar> - 1.2) * 0.57735027"
  by (simp add: octahedron_def sdOctahedron_def rollMatrix_def assms)

lemma rot2_abs_ge:
  fixes c s x y :: real
  assumes "c * c + s * s = 1"
  shows "\<bar>x\<bar> \<le> \<bar>x * c + y * s\<bar> + \<bar>y * c - x * s\<bar>" "\<bar>y\<bar> \<le> \<bar>x * c + y * s\<bar> + \<bar>y * c - x * s\<bar>"
proof -
  let ?a = "x * c + y * s" and ?b = "y * c - x * s"
  have "?a * ?a + ?b * ?b = (x * x + y * y) * (c * c + s * s)"
    by (simp add: algebra_simps)
  then have e: "?a * ?a + ?b * ?b = x * x + y * y"
    by (simp add: assms)
  have "(\<bar>?a\<bar> + \<bar>?b\<bar>)\<^sup>2 = ?a * ?a + ?b * ?b + 2 * \<bar>?a\<bar> * \<bar>?b\<bar>"
    by (simp add: power2_eq_square algebra_simps abs_mult_self_eq)
  then have s: "x * x + y * y \<le> (\<bar>?a\<bar> + \<bar>?b\<bar>)\<^sup>2"
    using e by simp
  have "\<bar>x\<bar>\<^sup>2 \<le> (\<bar>?a\<bar> + \<bar>?b\<bar>)\<^sup>2"
    using s by (simp add: power2_eq_square) (smt (verit) mult_nonneg_nonneg zero_le_square)
  then show "\<bar>x\<bar> \<le> \<bar>?a\<bar> + \<bar>?b\<bar>"
    by (rule power2_le_imp_le) simp
  have "\<bar>y\<bar>\<^sup>2 \<le> (\<bar>?a\<bar> + \<bar>?b\<bar>)\<^sup>2"
    using s by (simp add: power2_eq_square) (smt (verit) mult_nonneg_nonneg zero_le_square)
  then show "\<bar>y\<bar> \<le> \<bar>?a\<bar> + \<bar>?b\<bar>"
    by (rule power2_le_imp_le) simp
qed

lemma octahedron_ge:
  assumes "rotatedP U p = Vec3 x y z"
  shows "(\<bar>x\<bar> / 1.2 + \<bar>z + 1\<bar> - 1.2) * 0.57735027 \<le> octahedron U p"
    and "(\<bar>y\<bar> + \<bar>z + 1\<bar> - 1.2) * 0.57735027 \<le> octahedron U p"
proof -
  define c s x' where "c = cos (PI / 4)" and "s = sin (PI / 4)" and "x' = x / 1.2"
  have cs: "c * c + s * s = 1"
    using sin_cos_squared_add3 [of "PI / 4"] by (simp add: add.commute c_def s_def)
  have o: "octahedron U p = (\<bar>x' * c + y * s\<bar> + \<bar>y * c - x' * s\<bar> + \<bar>z + 1\<bar> - 1.2) * 0.57735027"
    unfolding c_def s_def x'_def by (rule octahedron_formula [OF assms])
  have bx: "\<bar>x'\<bar> \<le> \<bar>x' * c + y * s\<bar> + \<bar>y * c - x' * s\<bar>"
    using cs by (rule rot2_abs_ge(1))
  have by': "\<bar>y\<bar> \<le> \<bar>x' * c + y * s\<bar> + \<bar>y * c - x' * s\<bar>"
    using cs by (rule rot2_abs_ge(2))
  have ax: "\<bar>x'\<bar> = \<bar>x\<bar> / 1.2"
    by (simp add: x'_def)
  show "(\<bar>x\<bar> / 1.2 + \<bar>z + 1\<bar> - 1.2) * 0.57735027 \<le> octahedron U p"
    unfolding o ax [symmetric] by (rule mult_right_mono) (use bx in simp_all)
  show "(\<bar>y\<bar> + \<bar>z + 1\<bar> - 1.2) * 0.57735027 \<le> octahedron U p"
    unfolding o by (rule mult_right_mono) (use by' in simp_all)
qed

lemma cylinder_formula:
  assumes "rotatedP U p = Vec3 x y z"
  shows "cylinder U p =
     min (max (sqrt (x * 0.125 * (x * 0.125) + (z + 0.75) * (z + 0.75)) - 0.2) (\<bar>y\<bar> - 1)) 0
     + sqrt (max (sqrt (x * 0.125 * (x * 0.125) + (z + 0.75) * (z + 0.75)) - 0.2) 0
               * max (sqrt (x * 0.125 * (x * 0.125) + (z + 0.75) * (z + 0.75)) - 0.2) 0
             + max (\<bar>y\<bar> - 1) 0 * max (\<bar>y\<bar> - 1) 0)"
  by (simp add: cylinder_def sdCappedCylinder_def assms length2.simps)

subsection \<open>A point of the side face, inside the blade\<close>

lemma sqrt_eqI: "0 \<le> r \<Longrightarrow> a = r * r \<Longrightarrow> sqrt a = r"
  by (simp add: real_sqrt_mult)

lemma side_tie:
  assumes "u_pitch_angle U = 0" and "u_yaw_angle U = 0"
  shows "cube U (Vec3 (6 / 5) 0 (- (3 / 4))) = 0"
    and "cylinder U (Vec3 (6 / 5) 0 (- (3 / 4))) = - (1 / 20)"
    and "cylinderInCube U (Vec3 (6 / 5) 0 (- (3 / 4))) = 0"
    and "cubeWithHole U (Vec3 (6 / 5) 0 (- (3 / 4))) = 0"
    and "uy (map_frag U (Vec3 (6 / 5) 0 (- (3 / 4)))) = MATERIAL_PLASTIC"
proof -
  let ?p = "Vec3 (6 / 5) 0 (- (3 / 4))"
  have r: "rotatedP U ?p = ?p"
    using assms by (rule rotatedP_zero)
  show c: "cube U ?p = 0"
    by (simp add: cube_def r sdBox_formula)
  have q: "sqrt (9 / 400) = 3 / 20" by (rule sqrt_eqI) simp_all
  show y: "cylinder U ?p = - (1 / 20)"
    by (simp add: cylinder_formula [OF r] q)
  show i: "cylinderInCube U ?p = 0"
    by (simp add: cylinderInCube_def c y)
  have "0 \<le> octahedron U ?p"
    using octahedron_ge(1) [OF r] by simp
  then show h: "cubeWithHole U ?p = 0"
    by (simp add: cubeWithHole_def c)
  have "0 \<le> ledSphere U ?p"
    using ledSphere_ge(2) [OF r] by simp
  then show "uy (map_frag U ?p) = MATERIAL_PLASTIC"
    by (simp add: map_frag_material i h)
qed

subsection \<open>The scene along the camera axis\<close>

lemma rotatedP_norm:
  assumes "rotatedP U (Vec3 x y z) = Vec3 X Y Z"
  shows "X * X + Y * Y + Z * Z = x * x + y * y + z * z"
proof -
  define cy sy cp sp where "cy = cos (u_yaw_angle U)" and "sy = sin (u_yaw_angle U)"
    and "cp = cos (u_pitch_angle U)" and "sp = sin (u_pitch_angle U)"
  have y: "cy * cy + sy * sy = 1"
    using sin_cos_squared_add3 [of "u_yaw_angle U"] by (simp add: cy_def sy_def)
  have p: "cp * cp + sp * sp = 1"
    using sin_cos_squared_add3 [of "u_pitch_angle U"] by (simp add: cp_def sp_def)
  define W where "W = x * sy + z * cy"
  have X: "X = x * cy - z * sy" and Y: "Y = W * sp + y * cp" and Z: "Z = W * cp - y * sp"
    using assms unfolding rotatedP_formula W_def cy_def sy_def cp_def sp_def
    by (simp_all add: algebra_simps)
  have 1: "X * X + W * W = (x * x + z * z) * (cy * cy + sy * sy)"
    unfolding X W_def by (simp add: algebra_simps)
  have 2: "Y * Y + Z * Z = (W * W + y * y) * (cp * cp + sp * sp)"
    unfolding Y Z by (simp add: algebra_simps)
  show ?thesis
    using 1 2 unfolding y p by simp
qed

lemma map_frag_ge:
  assumes "rotatedP U p = Vec3 X Y Z"
  shows "\<bar>X\<bar> - 6 / 5 \<le> ux (map_frag U p)" "\<bar>Y\<bar> - 6 / 5 \<le> ux (map_frag U p)"
    "\<bar>Z\<bar> - 6 / 5 \<le> ux (map_frag U p)"
proof -
  note c = cube_ge [OF assms] and l = ledSphere_ge [OF assms]
    and h = cube_le_cubeWithHole [of U p] and i = cube_le_cylinderInCube [of U p]
  show "\<bar>X\<bar> - 6 / 5 \<le> ux (map_frag U p)"
    unfolding map_frag_min using c(1) l(1) h i by simp
  show "\<bar>Y\<bar> - 6 / 5 \<le> ux (map_frag U p)"
    unfolding map_frag_min using c(2) l(2) h i by simp
  show "\<bar>Z\<bar> - 6 / 5 \<le> ux (map_frag U p)"
    unfolding map_frag_min using c(3) l(3) h i by simp
qed

lemma max_component:
  fixes X Y Z r :: real
  assumes "X * X + Y * Y + Z * Z = r * r" and "0 \<le> r"
  shows "57 / 100 * r \<le> \<bar>X\<bar> \<or> 57 / 100 * r \<le> \<bar>Y\<bar> \<or> 57 / 100 * r \<le> \<bar>Z\<bar>"
proof (rule ccontr)
  assume "\<not> ?thesis"
  then have a: "\<bar>X\<bar> < 57 / 100 * r" "\<bar>Y\<bar> < 57 / 100 * r" "\<bar>Z\<bar> < 57 / 100 * r"
    by simp_all
  have "\<bar>X\<bar> * \<bar>X\<bar> < (57 / 100 * r) * (57 / 100 * r)"
    using a(1) by (intro mult_strict_mono') simp_all
  moreover have "\<bar>Y\<bar> * \<bar>Y\<bar> < (57 / 100 * r) * (57 / 100 * r)"
    using a(2) by (intro mult_strict_mono') simp_all
  moreover have "\<bar>Z\<bar> * \<bar>Z\<bar> < (57 / 100 * r) * (57 / 100 * r)"
    using a(3) by (intro mult_strict_mono') simp_all
  ultimately have "X * X + Y * Y + Z * Z < 3 * ((57 / 100 * r) * (57 / 100 * r))"
    by simp
  then have "r * r < 3 * ((57 / 100 * r) * (57 / 100 * r))"
    by (simp only: assms(1))
  moreover have "3 * ((57 / 100 * r) * (57 / 100 * r)) = 9747 / 10000 * (r * r)"
    by simp
  moreover have "0 \<le> r * r" by simp
  ultimately show False by linarith
qed

lemma map_frag_axis_ge:
  assumes "0 \<le> r"
  shows "57 / 100 * r - 6 / 5 \<le> ux (map_frag U (Vec3 0 0 (- r)))"
proof -
  obtain X Y Z where r: "rotatedP U (Vec3 0 0 (- r)) = Vec3 X Y Z"
    by (cases "rotatedP U (Vec3 0 0 (- r))") blast
  have "X * X + Y * Y + Z * Z = r * r"
    using rotatedP_norm [OF r] by simp
  then have "57 / 100 * r \<le> \<bar>X\<bar> \<or> 57 / 100 * r \<le> \<bar>Y\<bar> \<or> 57 / 100 * r \<le> \<bar>Z\<bar>"
    using assms by (rule max_component)
  then show ?thesis
    using map_frag_ge [OF r] by linarith
qed

subsection \<open>Hit and miss in the pixel\<close>

lemma main_ray_miss:
  assumes "\<not> ux (rayMarch U ro rd) < 100"
  shows "main_ray U ro rd = Vec4 0 0 0 0"
  using assms by (simp add: main_ray_def Let_def)

lemma main_ray_hit:
  assumes "ux (rayMarch U ro rd) < 100"
  shows "ca (main_ray U ro rd) = 1"
  using assms by (simp add: main_ray_def Let_def)

subsection \<open>Marching away from the body\<close>

lemma map_frag_camera_axis:
  assumes "0 \<le> t"
  shows "t / 2 + 1 / 8 \<le> ux (map_frag U (Vec3 0 0 (- (47 / 20) - t)))"
proof -
  have e: "- (47 / 20 + t) = - (47 / 20) - t"
    by simp
  have "57 / 100 * (47 / 20 + t) - 6 / 5 \<le> ux (map_frag U (Vec3 0 0 (- (47 / 20 + t))))"
    by (rule map_frag_axis_ge) (use assms in linarith)
  then have "57 / 100 * (47 / 20 + t) - 6 / 5 \<le> ux (map_frag U (Vec3 0 0 (- (47 / 20) - t)))"
    unfolding e .
  moreover have "t / 2 + 1 / 8 \<le> 57 / 100 * (47 / 20 + t) - 6 / 5"
    using assms by (simp add: field_simps)
  ultimately show ?thesis
    by (rule order_trans [rotated])
qed

lemma march_away_step:
  assumes "0 \<le> t"
  shows "rayMarch_loop U (Vec3 0 0 (- (47 / 20))) (Vec3 0 0 (- 1)) (Suc n) t m =
     (if 100 < t then Vec2 t (uy (map_frag U (Vec3 0 0 (- (47 / 20) - t))))
      else rayMarch_loop U (Vec3 0 0 (- (47 / 20))) (Vec3 0 0 (- 1)) n
             (t + ux (map_frag U (Vec3 0 0 (- (47 / 20) - t)))) (uy (map_frag U (Vec3 0 0 (- (47 / 20) - t)))))"
proof -
  have "\<not> ux (map_frag U (Vec3 0 0 (- (47 / 20) - t))) < 1 / 1000"
    using map_frag_camera_axis [OF assms, of U] assms by linarith
  then show ?thesis
    by (simp add: Let_def)
qed

lemma march_away:
  assumes "0 \<le> t"
  shows "100 < ux (rayMarch_loop U (Vec3 0 0 (- (47 / 20))) (Vec3 0 0 (- 1)) n t m)
     \<or> (3 / 2) ^ n * (t + 1 / 4) - 1 / 4 \<le> ux (rayMarch_loop U (Vec3 0 0 (- (47 / 20))) (Vec3 0 0 (- 1)) n t m)"
  using assms
proof (induction n arbitrary: t m)
  case 0
  show ?case by simp
next
  case (Suc n)
  let ?d = "ux (map_frag U (Vec3 0 0 (- (47 / 20) - t)))"
  let ?m = "uy (map_frag U (Vec3 0 0 (- (47 / 20) - t)))"
  note d = map_frag_camera_axis [OF Suc.prems, of U]
  show ?case
  proof (cases "100 < t")
    case True
    then show ?thesis
      by (simp only: march_away_step [OF Suc.prems] if_True vec2.sel simp_thms)
  next
    case False
    have n: "0 \<le> t + ?d"
      using d Suc.prems by linarith
    have s: "(3 / 2) ^ Suc n * (t + 1 / 4) \<le> (3 / 2) ^ n * (t + ?d + 1 / 4)"
    proof -
      have "3 / 2 * (t + 1 / 4) \<le> t + ?d + 1 / 4"
        using d by (simp add: field_simps)
      then have "(3 / 2) ^ n * (3 / 2 * (t + 1 / 4)) \<le> (3 / 2) ^ n * (t + ?d + 1 / 4)"
        by (intro mult_left_mono) simp_all
      then show ?thesis by (simp add: mult.assoc)
    qed
    show ?thesis
      using Suc.IH [OF n, of ?m] s
      by (simp only: march_away_step [OF Suc.prems] False if_False) linarith
  qed
qed

lemma rayMarch_away: "100 < ux (rayMarch U (Vec3 0 0 (- (47 / 20))) (Vec3 0 0 (- 1)))"
proof -
  have "(401::real) < (3 / 2) ^ 100"
    by (simp add: power_divide)
  then have "(100::real) < (3 / 2) ^ 100 * (0 + 1 / 4) - 1 / 4"
    by simp
  then show ?thesis
    using march_away [of 0 U 100 "- 1"] by (simp add: rayMarch_def del: rayMarch_loop.simps) linarith
qed

subsection \<open>The top face of the body\<close>

lemma rot2_abs_ge_radius:
  fixes c s x y r :: real
  assumes "c * c + s * s = 1" and "0 \<le> r" and "r * r \<le> x * x + y * y"
  shows "r \<le> \<bar>x * c + y * s\<bar> + \<bar>y * c - x * s\<bar>"
proof -
  let ?a = "x * c + y * s" and ?b = "y * c - x * s"
  have "?a * ?a + ?b * ?b = (x * x + y * y) * (c * c + s * s)"
    by (simp add: algebra_simps)
  then have e: "?a * ?a + ?b * ?b = x * x + y * y"
    by (simp add: assms(1))
  have "(\<bar>?a\<bar> + \<bar>?b\<bar>)\<^sup>2 = ?a * ?a + ?b * ?b + 2 * (\<bar>?a\<bar> * \<bar>?b\<bar>)"
    by (simp add: power2_eq_square algebra_simps abs_mult_self_eq)
  moreover have "0 \<le> 2 * (\<bar>?a\<bar> * \<bar>?b\<bar>)"
    by simp
  ultimately have "x * x + y * y \<le> (\<bar>?a\<bar> + \<bar>?b\<bar>)\<^sup>2"
    using e by linarith
  then have "r\<^sup>2 \<le> (\<bar>?a\<bar> + \<bar>?b\<bar>)\<^sup>2"
    using assms(3) by (simp add: power2_eq_square)
  then show ?thesis
    by (rule power2_le_imp_le) simp
qed

lemma octahedron_ge_radius:
  assumes "rotatedP U p = Vec3 x y z" and "0 \<le> r" and "r * r \<le> x / 1.2 * (x / 1.2) + y * y"
  shows "(r + \<bar>z + 1\<bar> - 1.2) * 0.57735027 \<le> octahedron U p"
proof -
  define c s x' where "c = cos (PI / 4)" and "s = sin (PI / 4)" and "x' = x / 1.2"
  have cs: "c * c + s * s = 1"
    using sin_cos_squared_add3 [of "PI / 4"] by (simp add: add.commute c_def s_def)
  have o: "octahedron U p = (\<bar>x' * c + y * s\<bar> + \<bar>y * c - x' * s\<bar> + \<bar>z + 1\<bar> - 1.2) * 0.57735027"
    unfolding c_def s_def x'_def by (rule octahedron_formula [OF assms(1)])
  have "r \<le> \<bar>x' * c + y * s\<bar> + \<bar>y * c - x' * s\<bar>"
    using cs assms(2) assms(3) [folded x'_def] by (rule rot2_abs_ge_radius)
  then show ?thesis
    unfolding o by (intro mult_right_mono) simp_all
qed

lemma square_mono:
  fixes a b :: real
  assumes "0 \<le> a" and "a \<le> \<bar>b\<bar>"
  shows "a * a \<le> b * b"
proof -
  have "a * a \<le> \<bar>b\<bar> * \<bar>b\<bar>"
    using assms by (intro mult_mono) simp_all
  then show ?thesis
    by simp
qed

text \<open>The scene above a part of the top face of the body.\<close>

lemma map_frag_top:
  assumes r: "rotatedP U p = Vec3 X Y Z"
    and X: "- (107 / 100) \<le> X" "X \<le> - (89 / 100)"
    and Z: "- (99 / 100) \<le> Z" "Z \<le> - (41 / 50)"
    and Y: "99 / 100 \<le> Y"
  shows "map_frag U p = Vec2 (Y - 1) MATERIAL_PLASTIC"
proof -
  have c: "cube U p = Y - 1"
  proof (cases "1 \<le> Y")
    case True
    then show ?thesis
      using X Z by (simp add: cube_def r sdBox_formula max_def min_def)
  next
    case False
    then show ?thesis
      using X Z Y by (simp add: cube_def r sdBox_formula max_def min_def)
  qed
  have "(123 / 100) * (123 / 100) \<le> X / 1.2 * (X / 1.2) + Y * Y"
  proof -
    have "(89 / 120) * (89 / 120) \<le> X / 1.2 * (X / 1.2)"
      using X by (intro square_mono) simp_all
    moreover have "(99 / 100) * (99 / 100) \<le> Y * Y"
      using Y by (intro square_mono) simp_all
    ultimately show ?thesis
      by simp
  qed
  then have "(123 / 100 + \<bar>Z + 1\<bar> - 1.2) * 0.57735027 \<le> octahedron U p"
    by (intro octahedron_ge_radius [OF r]) simp_all
  moreover have "1 / 100 \<le> (123 / 100 + \<bar>Z + 1\<bar> - 1.2) * 0.57735027"
    using Z by simp
  ultimately have o: "1 / 100 \<le> octahedron U p"
    by (rule order_trans [rotated])
  have h: "cubeWithHole U p = Y - 1"
    using o Y by (simp add: cubeWithHole_def c)
  have i: "\<not> cylinderInCube U p < Y - 1"
    using cube_le_cylinderInCube [of U p] by (simp add: c)
  have l: "\<not> ledSphere U p < Y - 1"
    using ledSphere_ge(2) [OF r] Y by simp
  show ?thesis
    using i l by (simp add: map_frag_def h)
qed

subsection \<open>The tilted frame and the ray of one of its pixels\<close>

lemma frame_tilted_angles:
  "cos (u_pitch_angle frame_tilted) = 5 / 13" "sin (u_pitch_angle frame_tilted) = - (12 / 13)"
  "cos (u_yaw_angle frame_tilted) = 12 / 13" "sin (u_yaw_angle frame_tilted) = - (5 / 13)"
proof -
  have a: "sqrt (1 + (12 / 5)\<^sup>2) = 13 / 5"
    by (rule sqrt_eqI) (simp_all add: power2_eq_square)
  have b: "sqrt (1 + (5 / 12)\<^sup>2) = 13 / 12"
    by (rule sqrt_eqI) (simp_all add: power2_eq_square)
  show "cos (u_pitch_angle frame_tilted) = 5 / 13"
    by (simp add: frame_tilted_def cos_arctan a)
  show "sin (u_pitch_angle frame_tilted) = - (12 / 13)"
    by (simp add: frame_tilted_def sin_arctan a)
  show "cos (u_yaw_angle frame_tilted) = 12 / 13"
    by (simp add: frame_tilted_def cos_arctan b)
  show "sin (u_yaw_angle frame_tilted) = - (5 / 13)"
    by (simp add: frame_tilted_def sin_arctan b)
qed

lemma rotatedP_tilted:
  "rotatedP frame_tilted (Vec3 x y z) =
     Vec3 (x * (12 / 13) + z * (5 / 13))
          (x * (60 / 169) + y * (5 / 13) - z * (144 / 169))
          (y * (12 / 13) + z * (60 / 169) - x * (25 / 169))"
  by (simp add: rotatedP_formula frame_tilted_angles)

lemma rayMarch_loop_continue:
  assumes "map_frag U (add3 ro (smul3 t rd)) = Vec2 d k" and "\<not> d < 1 / 1000" and "\<not> 100 < t"
  shows "rayMarch_loop U ro rd (Suc n) t m = rayMarch_loop U ro rd n (t + d) k"
  using assms by (simp add: Let_def)

lemma rayMarch_loop_break:
  assumes "map_frag U (add3 ro (smul3 t rd)) = Vec2 d k" and "d < 1 / 1000 \<or> 100 < t"
  shows "rayMarch_loop U ro rd (Suc n) t m = Vec2 t k"
  using assms by (simp add: Let_def)

text \<open>The camera ray of the pixel \<open>v_uv = (7/24, 79/288)\<close> of a square viewport.\<close>

lemma map_frag_tilted_ray:
  assumes "t \<le> 101 / 100"
  shows "map_frag frame_tilted
     (add3 (Vec3 0 0 (- (47 / 20))) (smul3 t (Vec3 (- (60 / 169)) (- (5 / 13)) (144 / 169))))
   = Vec2 (847 / 845 - t) MATERIAL_PLASTIC"
proof -
  have r: "rotatedP frame_tilted
     (add3 (Vec3 0 0 (- (47 / 20))) (smul3 t (Vec3 (- (60 / 169)) (- (5 / 13)) (144 / 169))))
     = Vec3 (- (47 / 52)) (1692 / 845 - t) (- (141 / 169))"
    by (simp add: rotatedP_tilted diff_divide_distrib)
  show ?thesis
    using map_frag_top [OF r] assms by simp
qed

lemma rayMarch_tilted:
  "rayMarch frame_tilted (Vec3 0 0 (- (47 / 20))) (Vec3 (- (60 / 169)) (- (5 / 13)) (144 / 169))
     = Vec2 (847 / 845) MATERIAL_PLASTIC"
proof -
  let ?ro = "Vec3 0 0 (- (47 / 20))" and ?rd = "Vec3 (- (60 / 169)) (- (5 / 13)) (144 / 169)"
  have e: "rayMarch frame_tilted ?ro ?rd = rayMarch_loop frame_tilted ?ro ?rd (Suc (Suc 98)) 0 (- 1)"
    by (simp add: rayMarch_def del: rayMarch_loop.simps)
  have 1: "map_frag frame_tilted (add3 ?ro (smul3 0 ?rd)) = Vec2 (847 / 845) MATERIAL_PLASTIC"
    using map_frag_tilted_ray [of 0] by simp
  have 2: "map_frag frame_tilted (add3 ?ro (smul3 (0 + 847 / 845) ?rd)) = Vec2 0 MATERIAL_PLASTIC"
    using map_frag_tilted_ray [of "0 + 847 / 845"] by simp
  have "rayMarch_loop frame_tilted ?ro ?rd (Suc (Suc 98)) 0 (- 1)
      = rayMarch_loop frame_tilted ?ro ?rd (Suc 98) (0 + 847 / 845) MATERIAL_PLASTIC"
    using 1 by (rule rayMarch_loop_continue) simp_all
  also have "\<dots> = Vec2 (0 + 847 / 845) MATERIAL_PLASTIC"
    using 2 by (rule rayMarch_loop_break) simp
  finally show ?thesis
    unfolding e by simp
qed





subsection \<open>Dot products and normalised vectors\<close>





lemma length3_zero_iff: "length3 v = 0 \<longleftrightarrow> v = Vec3 0 0 0"
proof (cases v)
  case (Vec3 a b c)
  have "a * a + b * b + c * c = 0 \<longleftrightarrow> a = 0 \<and> b = 0 \<and> c = 0"
    by (smt (verit) mult_eq_0_iff zero_le_square)
  then show ?thesis
    by (simp add: Vec3 length3.simps)
qed

lemma length3_normalize3:
  assumes "length3 v \<noteq> 0"
  shows "length3 (normalize3 v) = 1"
proof (cases v)
  case (Vec3 a b c)
  let ?l = "length3 (Vec3 a b c)"
  have p: "0 < ?l"
    using assms by (simp add: Vec3 less_le)
  have "normalize3 (Vec3 a b c) = smul3 (1 / ?l) (Vec3 a b c)"
    by simp
  then have "length3 (normalize3 (Vec3 a b c)) = \<bar>1 / ?l\<bar> * ?l"
    by (simp only: length3_smul3)
  then show ?thesis
    using p by (simp add: Vec3)
qed



subsection \<open>Plastic lit and viewed along its normal\<close>












subsection \<open>The range of the materials\<close>





lemma pow3_sel: "pow3 a b = Vec3 (pow (vx a) (vx b)) (pow (vy a) (vy b)) (pow (vz a) (vz b))"
  by (cases a; cases b) simp


subsection \<open>Inside the glass blade\<close>

lemma rot2_abs_le:
  fixes c s x y :: real
  assumes "\<bar>c\<bar> \<le> 1" and "\<bar>s\<bar> \<le> 1"
  shows "\<bar>x * c + y * s\<bar> + \<bar>y * c - x * s\<bar> \<le> 2 * (\<bar>x\<bar> + \<bar>y\<bar>)"
proof -
  have "\<bar>x * c\<bar> \<le> \<bar>x\<bar> * 1" "\<bar>y * s\<bar> \<le> \<bar>y\<bar> * 1" "\<bar>y * c\<bar> \<le> \<bar>y\<bar> * 1" "\<bar>x * s\<bar> \<le> \<bar>x\<bar> * 1"
    unfolding abs_mult using assms by (intro mult_left_mono; simp)+
  then have 1: "\<bar>x * c\<bar> \<le> \<bar>x\<bar>" "\<bar>y * s\<bar> \<le> \<bar>y\<bar>" "\<bar>y * c\<bar> \<le> \<bar>y\<bar>" "\<bar>x * s\<bar> \<le> \<bar>x\<bar>"
    by simp_all
  have "\<bar>x * c + y * s\<bar> + \<bar>y * c - x * s\<bar> \<le> (\<bar>x * c\<bar> + \<bar>y * s\<bar>) + (\<bar>y * c\<bar> + \<bar>x * s\<bar>)"
    by (intro add_mono abs_triangle_ineq abs_triangle_ineq4)
  also have "\<dots> \<le> (\<bar>x\<bar> + \<bar>y\<bar>) + (\<bar>y\<bar> + \<bar>x\<bar>)"
    by (intro add_mono 1)
  also have "\<dots> = 2 * (\<bar>x\<bar> + \<bar>y\<bar>)"
    by simp
  finally show ?thesis .
qed

lemma square_mono':
  fixes a b :: real
  assumes "\<bar>b\<bar> \<le> a"
  shows "b * b \<le> a * a"
proof -
  have "\<bar>b\<bar> * \<bar>b\<bar> \<le> a * a"
    using assms by (intro mult_mono) simp_all
  then show ?thesis
    by simp
qed

lemma octahedron_le:
  assumes "rotatedP U p = Vec3 x y z"
  shows "octahedron U p \<le> (2 * (\<bar>x\<bar> / 1.2 + \<bar>y\<bar>) + \<bar>z + 1\<bar> - 1.2) * 0.57735027"
proof -
  define c s x' where "c = cos (PI / 4)" and "s = sin (PI / 4)" and "x' = x / 1.2"
  have o: "octahedron U p = (\<bar>x' * c + y * s\<bar> + \<bar>y * c - x' * s\<bar> + \<bar>z + 1\<bar> - 1.2) * 0.57735027"
    unfolding c_def s_def x'_def by (rule octahedron_formula [OF assms])
  have "\<bar>x' * c + y * s\<bar> + \<bar>y * c - x' * s\<bar> \<le> 2 * (\<bar>x'\<bar> + \<bar>y\<bar>)"
    by (rule rot2_abs_le) (simp_all add: c_def s_def)
  moreover have "\<bar>x'\<bar> = \<bar>x\<bar> / 1.2"
    by (simp add: x'_def)
  ultimately show ?thesis
    unfolding o by (intro mult_right_mono) simp_all
qed

text \<open>The scene inside the glass blade, around the point \<open>(0, 0, -0.7)\<close> of the rotated frame.\<close>

lemma map_frag_glass:
  assumes r: "rotatedP U p = Vec3 X Y Z"
    and X: "\<bar>X\<bar> \<le> 1 / 100" and Y: "\<bar>Y\<bar> \<le> 1 / 100"
    and Z: "- (71 / 100) \<le> Z" "Z \<le> - (69 / 100)"
  shows "map_frag U p =
     Vec2 (sqrt (X * 0.125 * (X * 0.125) + (Z + 0.75) * (Z + 0.75)) - 0.2) MATERIAL_GLASS"
proof -
  define s where "s = sqrt (X * 0.125 * (X * 0.125) + (Z + 0.75) * (Z + 0.75))"
  have s0: "0 \<le> s"
    by (simp add: s_def)
  have "X * 0.125 * (X * 0.125) \<le> (1 / 800) * (1 / 800)"
    using X by (intro square_mono') simp
  moreover have "(Z + 0.75) * (Z + 0.75) \<le> (3 / 50) * (3 / 50)"
    using Z by (intro square_mono') simp
  ultimately have "X * 0.125 * (X * 0.125) + (Z + 0.75) * (Z + 0.75) \<le> (1 / 10)\<^sup>2"
    by (simp add: power2_eq_square)
  then have s1: "s \<le> 1 / 10"
    unfolding s_def by (intro real_le_lsqrt) simp_all
  have y: "cylinder U p = s - 0.2"
    using s0 s1 Y s_def [symmetric] by (simp add: cylinder_formula [OF r] max_def min_def)
  have c: "cube U p = - Z - 1"
    using X Y Z by (simp add: cube_def r sdBox_formula max_def min_def)
  have i: "cylinderInCube U p = s - 0.2"
    using s0 Z by (simp add: cylinderInCube_def y c)
  have "octahedron U p \<le> (2 * (\<bar>X\<bar> / 1.2 + \<bar>Y\<bar>) + \<bar>Z + 1\<bar> - 1.2) * 0.57735027"
    by (rule octahedron_le [OF r])
  moreover have "(2 * (\<bar>X\<bar> / 1.2 + \<bar>Y\<bar>) + \<bar>Z + 1\<bar> - 1.2) * 0.57735027 \<le> 0"
    using X Y Z by (intro mult_nonpos_nonneg) simp_all
  ultimately have o: "octahedron U p \<le> 0"
    by (rule order_trans)
  have h: "s - 0.2 < cubeWithHole U p"
    using o s1 by (simp add: cubeWithHole_def max_def)
  have l: "\<not> ledSphere U p < s - 0.2"
    using ledSphere_ge(2) [OF r] Y s1 by simp
  have "map_frag U p = Vec2 (s - 0.2) MATERIAL_GLASS"
    using h l by (simp add: map_frag_def i)
  then show ?thesis
    unfolding s_def .
qed

lemma map_frag_level_glass:
  assumes "\<bar>x\<bar> \<le> 1 / 100" and "\<bar>y\<bar> \<le> 1 / 100" and "- (71 / 100) \<le> z" and "z \<le> - (69 / 100)"
  shows "ux (map_frag frame_level (Vec3 x y z)) = sqrt (x * 0.125 * (x * 0.125) + (z + 0.75) * (z + 0.75)) - 0.2"
proof -
  have "rotatedP frame_level (Vec3 x y z) = Vec3 x y z"
    by (rule rotatedP_zero) (simp_all add: frame_level_def)
  then show ?thesis
    using assms by (simp add: map_frag_glass)
qed

lemma glass_samples:
  "ux (map_frag frame_level (Vec3 0 0 (- (7 / 10)))) = - (3 / 20)"
  "ux (map_frag frame_level (Vec3 (1 / 1000) 0 (- (7 / 10)))) = sqrt (160001 / 64000000) - 1 / 5"
  "ux (map_frag frame_level (Vec3 (- (1 / 1000)) 0 (- (7 / 10)))) = sqrt (160001 / 64000000) - 1 / 5"
  "ux (map_frag frame_level (Vec3 0 (1 / 1000) (- (7 / 10)))) = - (3 / 20)"
  "ux (map_frag frame_level (Vec3 0 (- (1 / 1000)) (- (7 / 10)))) = - (3 / 20)"
  "ux (map_frag frame_level (Vec3 0 0 (- (699 / 1000)))) = - (149 / 1000)"
  "ux (map_frag frame_level (Vec3 0 0 (- (701 / 1000)))) = - (151 / 1000)"
proof -
  have q: "sqrt (1 / 400) = 1 / 20" "sqrt (2601 / 1000000) = 51 / 1000"
    "sqrt (2401 / 1000000) = 49 / 1000"
    by (rule sqrt_eqI; simp)+
  show "ux (map_frag frame_level (Vec3 0 0 (- (7 / 10)))) = - (3 / 20)"
    by (subst map_frag_level_glass) (simp_all add: q)
  show "ux (map_frag frame_level (Vec3 (1 / 1000) 0 (- (7 / 10)))) = sqrt (160001 / 64000000) - 1 / 5"
    by (subst map_frag_level_glass) (simp_all add: q)
  show "ux (map_frag frame_level (Vec3 (- (1 / 1000)) 0 (- (7 / 10)))) = sqrt (160001 / 64000000) - 1 / 5"
    by (subst map_frag_level_glass) (simp_all add: q)
  show "ux (map_frag frame_level (Vec3 0 (1 / 1000) (- (7 / 10)))) = - (3 / 20)"
    by (subst map_frag_level_glass) (simp_all add: q)
  show "ux (map_frag frame_level (Vec3 0 (- (1 / 1000)) (- (7 / 10)))) = - (3 / 20)"
    by (subst map_frag_level_glass) (simp_all add: q)
  show "ux (map_frag frame_level (Vec3 0 0 (- (699 / 1000)))) = - (149 / 1000)"
    by (subst map_frag_level_glass) (simp_all add: q)
  show "ux (map_frag frame_level (Vec3 0 0 (- (701 / 1000)))) = - (151 / 1000)"
    by (subst map_frag_level_glass) (simp_all add: q)
qed

lemma calcNormal_mjs_glass: "calcNormal_mjs frame_level (Vec3 0 0 (- (7 / 10))) = Vec3 0 0 1"
  by (simp add: calcNormal_mjs_def map_mjs_eq glass_samples)

lemma calcNormal_glass: "vx (calcNormal frame_level (Vec3 0 0 (- (7 / 10)))) < 0"
proof -
  define a where "a = 1 / 20 - sqrt (160001 / 64000000)"
  have "sqrt (1 / 400) < sqrt (160001 / 64000000)"
    by (rule real_sqrt_less_mono) simp
  moreover have "sqrt (1 / 400) = 1 / 20"
    by (rule sqrt_eqI) simp_all
  ultimately have a: "a < 0"
    by (simp add: a_def)
  have "length3 (Vec3 a 0 (1 / 1000)) \<noteq> 0"
    by (simp add: length3_zero_iff)
  then have l: "0 < length3 (Vec3 a 0 (1 / 1000))"
    by (simp add: less_le)
  have "calcNormal frame_level (Vec3 0 0 (- (7 / 10))) = normalize3 (Vec3 a 0 (1 / 1000))"
    by (simp add: calcNormal_def glass_samples a_def del: normalize3.simps)
  then show ?thesis
    using a l by (simp add: divide_neg_pos)
qed

subsection \<open>The cylinder under a quarter turn\<close>

lemma cylinder_quarter:
  "cylinder frame_quarter (Vec3 1 0 0) = 31 / 20"
proof -
  have r: "rotatedP frame_quarter (Vec3 1 0 0) = Vec3 0 0 1"
    by (simp add: rotatedP_formula frame_quarter_def)
  have q: "sqrt (49 / 16) = 7 / 4" "sqrt (961 / 400) = 31 / 20"
    by (rule sqrt_eqI; simp)+
  show ?thesis
    by (simp add: cylinder_formula [OF r] q)
qed

lemma cylinder_unrotated:
  "sdCappedCylinder (mul3 (Vec3 1 0 (0 + 0.75)) (Vec3 0.125 1.0 1.0)) 1.0 0.2 < 1"
proof -
  have "sqrt (37 / 64) < sqrt 1"
    by (rule real_sqrt_less_mono) simp
  moreover have "sqrt (1 / 25) < sqrt (37 / 64)"
    by (rule real_sqrt_less_mono) simp
  moreover have "sqrt (1 / 25) = 1 / 5"
    by (rule sqrt_eqI) simp_all
  ultimately have b: "1 / 5 < sqrt (37 / 64)" "sqrt (37 / 64) < 1"
    by simp_all
  have "sdCappedCylinder (mul3 (Vec3 1 0 (0 + 0.75)) (Vec3 0.125 1.0 1.0)) 1.0 0.2
      = sqrt (37 / 64) - 1 / 5"
    using b(1) by (simp add: sdCappedCylinder_def length2.simps)
  then show ?thesis
    using b(2) by linarith
qed

subsection \<open>Ties between the objects\<close>

lemma outside_tie:
  assumes "u_pitch_angle U = 0" and "u_yaw_angle U = 0"
  shows "cylinderInCube U (Vec3 3 0 (- (3 / 4))) = cubeWithHole U (Vec3 3 0 (- (3 / 4)))"
    and "uy (map_frag U (Vec3 3 0 (- (3 / 4)))) = MATERIAL_PLASTIC"
proof -
  let ?p = "Vec3 3 0 (- (3 / 4))"
  have r: "rotatedP U ?p = ?p"
    using assms by (rule rotatedP_zero)
  have c: "cube U ?p = 9 / 5"
    by (simp add: cube_def r sdBox_formula sqrt_eqI [of "9 / 5" "81 / 25"])
  have q: "sqrt (9 / 64) = 3 / 8" "sqrt (49 / 1600) = 7 / 40"
    by (rule sqrt_eqI; simp)+
  have y: "cylinder U ?p = 7 / 40"
    by (simp add: cylinder_formula [OF r] q)
  have i: "cylinderInCube U ?p = 9 / 5"
    by (simp add: cylinderInCube_def c y)
  have "0 \<le> octahedron U ?p"
    using octahedron_ge(1) [OF r] by simp
  then have h: "cubeWithHole U ?p = 9 / 5"
    by (simp add: cubeWithHole_def c)
  show "cylinderInCube U ?p = cubeWithHole U ?p"
    by (simp add: i h)
  have "9 / 5 \<le> ledSphere U ?p"
    using ledSphere_ge(1) [OF r] by simp
  then show "uy (map_frag U ?p) = MATERIAL_PLASTIC"
    by (simp add: map_frag_material i h)
qed

lemma led_tie:
  assumes "u_pitch_angle U = 0" and "u_yaw_angle U = 0"
  shows "ledSphere U (Vec3 (53 / 50) (- (9 / 10)) (- (103 / 100)))
      = min (cubeWithHole U (Vec3 (53 / 50) (- (9 / 10)) (- (103 / 100))))
            (cylinderInCube U (Vec3 (53 / 50) (- (9 / 10)) (- (103 / 100))))"
    and "uy (map_frag U (Vec3 (53 / 50) (- (9 / 10)) (- (103 / 100)))) = MATERIAL_PLASTIC"
proof -
  let ?p = "Vec3 (53 / 50) (- (9 / 10)) (- (103 / 100))"
  have r: "rotatedP U ?p = ?p"
    using assms by (rule rotatedP_zero)
  have c: "cube U ?p = 3 / 100"
    by (simp add: cube_def r sdBox_formula sqrt_eqI [of "3 / 100" "9 / 10000"])
  have q: "sqrt (1 / 400) = 1 / 20"
    by (rule sqrt_eqI) simp_all
  have l: "ledSphere U ?p = 3 / 100"
    by (simp add: ledSphere_def sdSphere_def r length3.simps q)
  have "(63 / 50 + \<bar>- (103 / 100) + 1\<bar> - 1.2) * 0.57735027 \<le> octahedron U ?p"
    by (rule octahedron_ge_radius [OF r]) simp_all
  then have "0 \<le> octahedron U ?p"
    by simp
  then have h: "cubeWithHole U ?p = 3 / 100"
    by (simp add: cubeWithHole_def c)
  have i: "3 / 100 \<le> cylinderInCube U ?p"
    using cube_le_cylinderInCube [of U ?p] by (simp add: c)
  show "ledSphere U ?p = min (cubeWithHole U ?p) (cylinderInCube U ?p)"
    using i by (simp add: l h)
  show "uy (map_frag U ?p) = MATERIAL_PLASTIC"
    using i by (simp add: map_frag_material l h)
qed

section \<open>The two shaders compared\<close>

lemma main_ray_mjs_miss:
  assumes "\<not> ux (rayMarch_mjs U ro rd) < 100"
  shows "main_ray_mjs U ro rd = Vec4 0 0 0 0"
  using assms by (simp add: main_ray_mjs_def Let_def)

lemma main_ray_mjs_hit:
  assumes "ux (rayMarch_mjs U ro rd) < 100"
  shows "ca (main_ray_mjs U ro rd) = 1"
  using assms by (simp add: main_ray_mjs_def Let_def)

lemma calcNormal_mjs_central: "calcNormal_mjs U p = normalize3 (centralDifference (map_mjs U) p)"
  by (simp add: calcNormal_mjs_def centralDifference_def Let_def del: normalize3.simps)

lemma calcNormal_oneSided: "calcNormal U p = normalize3 (oneSidedDifference (map_frag U) p)"
  by (simp add: calcNormal_def oneSidedDifference_def Let_def del: normalize3.simps)

lemma main_frag_pipeline: "main_frag U v_uv = pixelPipeline (- 2.35) calcNormal U v_uv"
  by (cases v_uv)
    (simp add: main_frag_def main_ray_def pixelPipeline_def Let_def pow3_sel
      del: normalize3.simps pow3.simps)

lemma main_mjs_pipeline: "main_mjs U v_uv = pixelPipeline (- 2.75) calcNormal_mjs U v_uv"
  by (cases v_uv)
    (simp add: main_mjs_def main_ray_mjs_def pixelPipeline_def Let_def pow3_sel rayMarch_mjs_eq
      consts_mjs material_mjs del: normalize3.simps pow3.simps)

subsection \<open>The range of the pixel\<close>





subsection \<open>The difference vectors inside the glass blade\<close>

lemma centralDifference_glass:
  "centralDifference (map_frag frame_level) (Vec3 0 0 (- (7 / 10))) = Vec3 0 0 (1 / 500)"
  by (simp add: centralDifference_def glass_samples)

lemma oneSidedDifference_glass:
  "vz (oneSidedDifference (map_frag frame_level) (Vec3 0 0 (- (7 / 10)))) = 1 / 1000"
  by (simp add: oneSidedDifference_def glass_samples)

section \<open>A pixel above one with the body turned by less than a quarter radian\<close>

subsection \<open>The quarter turn of the octahedron\<close>




subsection \<open>The front face of the body\<close>


subsection \<open>The turned frame\<close>







subsection \<open>Plastic lit from near its normal\<close>







subsection \<open>The pixel of the standalone shader\<close>






subsection \<open>The pixel of the shader of main.mjs\<close>






section \<open>A pixel of the indicator\<close>








section \<open>The claims\<close>

text \<open>
  C1, as amended. With zero pitch and yaw the scene function at the origin selects
  Plastic, in both shaders, and its distance is \<open>0.2 * 0.57735027\<close>, which is
  positive: the origin lies inside the octahedral cut-out of the body, not inside the
  solid.
\<close>

theorem C1_origin_in_cutout:
  assumes "u_pitch_angle U = 0" and "u_yaw_angle U = 0"
  shows "map_frag U (Vec3 0 0 0) = Vec2 (0.2 * 0.57735027) MATERIAL_PLASTIC
    \<and> map_mjs U (Vec3 0 0 0) = Vec2 (0.2 * 0.57735027) MATERIAL_PLASTIC_mjs
    \<and> 0 < ux (map_frag U (Vec3 0 0 0))"
  using map_origin [OF assms] by (simp add: map_mjs_eq consts_mjs)

text \<open>The theorem of C1 at the level frame.\<close>

theorem C1_origin_in_cutout_witness:
  "u_pitch_angle frame_level = 0 \<and> u_yaw_angle frame_level = 0
    \<and> map_frag frame_level (Vec3 0 0 0) = Vec2 (0.2 * 0.57735027) MATERIAL_PLASTIC
    \<and> 0 < ux (map_frag frame_level (Vec3 0 0 0))"
  using C1_origin_in_cutout [of frame_level] by (simp add: frame_level_def)

text \<open>
  C1 as stated fails: at the origin of the level frame the material is Plastic but the
  distance is not negative.
\<close>

theorem C1_origin_negative_counterexample:
  "\<not> (uy (map_frag frame_level (Vec3 0 0 0)) = MATERIAL_PLASTIC
        \<and> ux (map_frag frame_level (Vec3 0 0 0)) < 0)"
proof -
  have "map_frag frame_level (Vec3 0 0 0) = Vec2 (0.2 * 0.57735027) MATERIAL_PLASTIC"
    by (rule map_origin) (simp_all add: frame_level_def)
  then show ?thesis
    by simp
qed

text \<open>
  C2, the code at an input where it departs from the claim. With a yaw of a quarter turn
  the point \<open>(1, 0, 0)\<close> has the cylinder distance \<open>31/20\<close>, because the cylinder is
  built from the rotated point; \<open>sdCappedCylinder\<close> on the unrotated point, offset and
  scaled as the claim says, is below \<open>1\<close>.
\<close>

theorem C2_cylinder_rotates_with_body:
  "cylinder frame_quarter (Vec3 1 0 0) = 31 / 20
    \<and> sdCappedCylinder (mul3 (Vec3 1 0 (0 + 0.75)) (Vec3 0.125 1.0 1.0)) 1.0 0.2 < 1"
  using cylinder_quarter cylinder_unrotated by simp

text \<open>
  C3, as amended. The scene function returns the least of the three distances, taken in
  the order body with hole, cylinder in cube, LED sphere, and replaces the running
  minimum only on a strictly smaller distance. So on a tie the earlier object keeps the
  material: where the cylinder ties with the body the material is not Glass, and where
  the LED sphere ties with the running minimum the material is not Led.
\<close>

theorem C3_selection_order:
  "ux (map_frag U p) = min (min (cubeWithHole U p) (cylinderInCube U p)) (ledSphere U p)
    \<and> uy (map_frag U p) =
        (if ledSphere U p < min (cubeWithHole U p) (cylinderInCube U p) then MATERIAL_LED
         else if cylinderInCube U p < cubeWithHole U p then MATERIAL_GLASS
         else MATERIAL_PLASTIC)
    \<and> (cylinderInCube U p = cubeWithHole U p \<longrightarrow> uy (map_frag U p) \<noteq> MATERIAL_GLASS)
    \<and> (ledSphere U p = min (cubeWithHole U p) (cylinderInCube U p)
          \<longrightarrow> uy (map_frag U p) \<noteq> MATERIAL_LED)"
  by (simp add: map_frag_min map_frag_material MATERIAL_LED_def MATERIAL_GLASS_def
      MATERIAL_PLASTIC_def)

text \<open>
  The theorem of C3 at two points of the level frame: beside the body, where the cylinder
  ties with it, and in front of the body near the indicator, where the LED sphere ties
  with it.
\<close>

theorem C3_selection_order_witness:
  "cylinderInCube frame_level (Vec3 3 0 (- (3 / 4))) = cubeWithHole frame_level (Vec3 3 0 (- (3 / 4)))
    \<and> uy (map_frag frame_level (Vec3 3 0 (- (3 / 4)))) \<noteq> MATERIAL_GLASS
    \<and> ledSphere frame_level (Vec3 (53 / 50) (- (9 / 10)) (- (103 / 100)))
        = min (cubeWithHole frame_level (Vec3 (53 / 50) (- (9 / 10)) (- (103 / 100))))
              (cylinderInCube frame_level (Vec3 (53 / 50) (- (9 / 10)) (- (103 / 100))))
    \<and> uy (map_frag frame_level (Vec3 (53 / 50) (- (9 / 10)) (- (103 / 100)))) \<noteq> MATERIAL_LED"
proof -
  have z: "u_pitch_angle frame_level = 0" "u_yaw_angle frame_level = 0"
    by (simp_all add: frame_level_def)
  note a = outside_tie(1) [OF z] and b = led_tie(1) [OF z]
  show ?thesis
    using C3_selection_order [of frame_level "Vec3 3 0 (- (3 / 4))"]
      C3_selection_order [of frame_level "Vec3 (53 / 50) (- (9 / 10)) (- (103 / 100))"] a b
    by blast
qed

text \<open>
  C3 as stated fails: on the side face of the body, inside the blade, the cylinder ties
  with the body and the material is not Glass.
\<close>

theorem C3_tie_counterexample:
  "cylinderInCube frame_level (Vec3 (6 / 5) 0 (- (3 / 4)))
      = cubeWithHole frame_level (Vec3 (6 / 5) 0 (- (3 / 4)))
    \<and> uy (map_frag frame_level (Vec3 (6 / 5) 0 (- (3 / 4)))) \<noteq> MATERIAL_GLASS"
proof -
  have z: "u_pitch_angle frame_level = 0" "u_yaw_angle frame_level = 0"
    by (simp_all add: frame_level_def)
  show ?thesis
    using side_tie(3,4,5) [OF z] by (simp add: MATERIAL_PLASTIC_def MATERIAL_GLASS_def)
qed

text \<open>
  C4, as amended. In main.mjs \<open>calcNormal\<close> is the normalised central difference of the
  distance component of \<open>map\<close> with the step \<open>0.001\<close>. In the standalone shader it is
  the normalised one-sided difference \<open>map(p) - map(p - \<epsilon>e)\<close> along each axis. In
  either shader the result has unit length whenever the difference vector is not zero.
\<close>

theorem C4_normal_estimators:
  "calcNormal_mjs U p = normalize3 (centralDifference (map_mjs U) p)
    \<and> calcNormal U p = normalize3 (oneSidedDifference (map_frag U) p)
    \<and> (centralDifference (map_mjs U) p \<noteq> Vec3 0 0 0 \<longrightarrow> length3 (calcNormal_mjs U p) = 1)
    \<and> (oneSidedDifference (map_frag U) p \<noteq> Vec3 0 0 0 \<longrightarrow> length3 (calcNormal U p) = 1)"
  by (simp add: calcNormal_mjs_central calcNormal_oneSided length3_normalize3 length3_zero_iff
      del: normalize3.simps)

text \<open>
  The theorem of C4 at the point \<open>(0, 0, -0.7)\<close> of the level frame, inside the glass
  blade, where neither difference vector is zero.
\<close>

theorem C4_normal_estimators_witness:
  "centralDifference (map_mjs frame_level) (Vec3 0 0 (- (7 / 10))) \<noteq> Vec3 0 0 0
    \<and> length3 (calcNormal_mjs frame_level (Vec3 0 0 (- (7 / 10)))) = 1
    \<and> oneSidedDifference (map_frag frame_level) (Vec3 0 0 (- (7 / 10))) \<noteq> Vec3 0 0 0
    \<and> length3 (calcNormal frame_level (Vec3 0 0 (- (7 / 10)))) = 1"
proof -
  have m: "map_mjs frame_level = map_frag frame_level"
    by (rule ext) (rule map_mjs_eq)
  have c: "centralDifference (map_mjs frame_level) (Vec3 0 0 (- (7 / 10))) \<noteq> Vec3 0 0 0"
    by (simp add: m centralDifference_glass)
  have o: "oneSidedDifference (map_frag frame_level) (Vec3 0 0 (- (7 / 10))) \<noteq> Vec3 0 0 0"
    using oneSidedDifference_glass by auto
  show ?thesis
    using C4_normal_estimators [of frame_level "Vec3 0 0 (- (7 / 10))"] c o by blast
qed

text \<open>
  C4 as stated fails for the standalone shader: at \<open>(0, 0, -0.7)\<close> of the level frame
  its normal is not the normalised central difference.
\<close>

theorem C4_central_difference_counterexample:
  "\<not> (length3 (calcNormal frame_level (Vec3 0 0 (- (7 / 10)))) = 1
        \<and> calcNormal frame_level (Vec3 0 0 (- (7 / 10)))
            = normalize3 (centralDifference (map_frag frame_level) (Vec3 0 0 (- (7 / 10)))))"
proof
  assume "length3 (calcNormal frame_level (Vec3 0 0 (- (7 / 10)))) = 1
    \<and> calcNormal frame_level (Vec3 0 0 (- (7 / 10)))
        = normalize3 (centralDifference (map_frag frame_level) (Vec3 0 0 (- (7 / 10))))"
  then have "calcNormal frame_level (Vec3 0 0 (- (7 / 10))) = Vec3 0 0 1"
    by (simp add: centralDifference_glass)
  then show False
    using calcNormal_glass by simp
qed

text \<open>
  C5, as amended. The two shaders have the same constants, distance functions, rotation
  matrices, scene function, ray marcher and material shaders, and each is the pixel
  pipeline of the specification; they differ in the camera offset (\<open>-2.75\<close> in
  main.mjs, \<open>-2.35\<close> in the standalone file) and in the normal estimator (central
  difference in main.mjs, one-sided difference in the standalone file).
\<close>

theorem C5_shared_core:
  "PI_mjs = PI \<and> MATERIAL_PLASTIC_mjs = MATERIAL_PLASTIC \<and> MATERIAL_GLASS_mjs = MATERIAL_GLASS
    \<and> MATERIAL_LED_mjs = MATERIAL_LED
    \<and> sdBox_mjs = sdBox \<and> sdOctahedron_mjs = sdOctahedron
    \<and> sdCappedCylinder_mjs = sdCappedCylinder \<and> sdSphere_mjs = sdSphere
    \<and> pitchMatrix_mjs = pitchMatrix \<and> yawMatrix_mjs = yawMatrix \<and> rollMatrix_mjs = rollMatrix
    \<and> map_mjs = map_frag \<and> rayMarch_mjs = rayMarch
    \<and> glassMaterial_mjs = glassMaterial \<and> plasticMaterial_mjs = plasticMaterial
    \<and> ledMaterial_mjs = ledMaterial
    \<and> main_mjs = pixelPipeline (- 2.75) calcNormal_mjs
    \<and> main_frag = pixelPipeline (- 2.35) calcNormal
    \<and> calcNormal_mjs U p = normalize3 (centralDifference (map_frag U) p)
    \<and> calcNormal U p = normalize3 (oneSidedDifference (map_frag U) p)"
proof -
  have m: "map_mjs = map_frag"
    by (intro ext) (rule map_mjs_eq)
  have r: "rayMarch_mjs = rayMarch"
    by (intro ext) (rule rayMarch_mjs_eq)
  have a: "main_mjs = pixelPipeline (- 2.75) calcNormal_mjs"
    by (intro ext) (rule main_mjs_pipeline)
  have b: "main_frag = pixelPipeline (- 2.35) calcNormal"
    by (intro ext) (rule main_frag_pipeline)
  have c: "calcNormal_mjs U p = normalize3 (centralDifference (map_frag U) p)"
    using calcNormal_mjs_central [of U p] by (simp only: m)
  show ?thesis
    using consts_mjs sd_mjs matrix_mjs material_mjs m r a b c calcNormal_oneSided [of U p]
    by blast
qed

text \<open>
  C5 as stated fails: at \<open>(0, 0, -0.7)\<close> of the level frame the two shaders compute
  different normals.
\<close>

theorem C5_normals_differ_counterexample:
  "calcNormal_mjs frame_level (Vec3 0 0 (- (7 / 10))) \<noteq> calcNormal frame_level (Vec3 0 0 (- (7 / 10)))"
proof
  assume "calcNormal_mjs frame_level (Vec3 0 0 (- (7 / 10))) = calcNormal frame_level (Vec3 0 0 (- (7 / 10)))"
  then have "calcNormal frame_level (Vec3 0 0 (- (7 / 10))) = Vec3 0 0 1"
    by (simp add: calcNormal_mjs_glass)
  then show False
    using calcNormal_glass by simp
qed




text \<open>
  C7. For every ray and all uniforms \<open>rayMarch\<close> returns one of the three material ids,
  in both shaders: the condition of one of the three material branches of \<open>main\<close>
  holds, and the magenta branch is not taken.
\<close>

theorem C7_material_tagged:
  "(uy (rayMarch U ro rd) = MATERIAL_GLASS \<or> uy (rayMarch U ro rd) = MATERIAL_PLASTIC
      \<or> uy (rayMarch U ro rd) = MATERIAL_LED)
    \<and> (uy (rayMarch_mjs U ro rd) = MATERIAL_GLASS_mjs \<or> uy (rayMarch_mjs U ro rd) = MATERIAL_PLASTIC_mjs
      \<or> uy (rayMarch_mjs U ro rd) = MATERIAL_LED_mjs)"
  using rayMarch_material [of U ro rd] by (auto simp: rayMarch_mjs_eq consts_mjs)

text \<open>
  C8. If \<open>rayMarch\<close> returns \<open>t \<ge> 100\<close> the colour is \<open>(0, 0, 0, 0)\<close>, and if
  it returns \<open>t < 100\<close> the alpha is \<open>1\<close>, in both shaders and for every ray, so for
  the ray of every pixel. The ray from \<open>(0, 0, -2.35)\<close> in the direction
  \<open>(0, 0, -1)\<close> ends with \<open>t \<ge> 100\<close> and alpha \<open>0\<close>, whatever the angles are.
\<close>

theorem C8_miss_transparent:
  "(100 \<le> ux (rayMarch U ro rd) \<longrightarrow> main_ray U ro rd = Vec4 0 0 0 0)
    \<and> (ux (rayMarch U ro rd) < 100 \<longrightarrow> ca (main_ray U ro rd) = 1)
    \<and> (100 \<le> ux (rayMarch_mjs U ro rd) \<longrightarrow> main_ray_mjs U ro rd = Vec4 0 0 0 0)
    \<and> (ux (rayMarch_mjs U ro rd) < 100 \<longrightarrow> ca (main_ray_mjs U ro rd) = 1)
    \<and> main_frag U v_uv = main_ray U (Vec3 0 0 (- 2.35))
          (normalize3 (Vec3 ((ux v_uv - 0.5) * 2 * (ux (u_resolution U) / uy (u_resolution U)))
             ((uy v_uv - 0.5) * 2) 1))
    \<and> 100 \<le> ux (rayMarch U (Vec3 0 0 (- 2.35)) (Vec3 0 0 (- 1)))
    \<and> ca (main_ray U (Vec3 0 0 (- 2.35)) (Vec3 0 0 (- 1))) = 0"
proof -
  have a: "100 < ux (rayMarch U (Vec3 0 0 (- 2.35)) (Vec3 0 0 (- 1)))"
    using rayMarch_away [of U] by simp
  then have "\<not> ux (rayMarch U (Vec3 0 0 (- 2.35)) (Vec3 0 0 (- 1))) < 100"
    by simp
  then have b: "main_ray U (Vec3 0 0 (- 2.35)) (Vec3 0 0 (- 1)) = Vec4 0 0 0 0"
    by (rule main_ray_miss)
  have c: "main_frag U v_uv = main_ray U (Vec3 0 0 (- 2.35))
          (normalize3 (Vec3 ((ux v_uv - 0.5) * 2 * (ux (u_resolution U) / uy (u_resolution U)))
             ((uy v_uv - 0.5) * 2) 1))"
    by (cases v_uv) (simp add: main_frag_def del: normalize3.simps)
  show ?thesis
    using a b c main_ray_miss [of U ro rd] main_ray_hit [of U ro rd]
      main_ray_mjs_miss [of U ro rd] main_ray_mjs_hit [of U ro rd]
    by (simp add: not_less)
qed

text \<open>
  The theorem of C8 at a ray that misses (away from the body, level frame) and at a ray
  that hits (the tilted frame, the ray of the pixel \<open>(7/24, 79/288)\<close>).
\<close>

theorem C8_miss_transparent_witness:
  "100 \<le> ux (rayMarch frame_level (Vec3 0 0 (- 2.35)) (Vec3 0 0 (- 1)))
    \<and> main_ray frame_level (Vec3 0 0 (- 2.35)) (Vec3 0 0 (- 1)) = Vec4 0 0 0 0
    \<and> ux (rayMarch frame_tilted (Vec3 0 0 (- (47 / 20))) (Vec3 (- (60 / 169)) (- (5 / 13)) (144 / 169))) < 100
    \<and> ca (main_ray frame_tilted (Vec3 0 0 (- (47 / 20))) (Vec3 (- (60 / 169)) (- (5 / 13)) (144 / 169))) = 1
    \<and> 100 \<le> ux (rayMarch_mjs frame_level (Vec3 0 0 (- 2.35)) (Vec3 0 0 (- 1)))
    \<and> main_ray_mjs frame_level (Vec3 0 0 (- 2.35)) (Vec3 0 0 (- 1)) = Vec4 0 0 0 0
    \<and> ux (rayMarch_mjs frame_tilted (Vec3 0 0 (- (47 / 20))) (Vec3 (- (60 / 169)) (- (5 / 13)) (144 / 169))) < 100
    \<and> ca (main_ray_mjs frame_tilted (Vec3 0 0 (- (47 / 20))) (Vec3 (- (60 / 169)) (- (5 / 13)) (144 / 169))) = 1"
proof -
  have h: "ux (rayMarch frame_tilted (Vec3 0 0 (- (47 / 20))) (Vec3 (- (60 / 169)) (- (5 / 13)) (144 / 169))) < 100"
    by (simp add: rayMarch_tilted)
  have m: "100 \<le> ux (rayMarch frame_level (Vec3 0 0 (- 2.35)) (Vec3 0 0 (- 1)))"
    using rayMarch_away [of frame_level] by simp
  show ?thesis
    using h m
      C8_miss_transparent [of frame_level "Vec3 0 0 (- 2.35)" "Vec3 0 0 (- 1)"]
      C8_miss_transparent [of frame_tilted "Vec3 0 0 (- (47 / 20))" "Vec3 (- (60 / 169)) (- (5 / 13)) (144 / 169)"]
    by (simp add: rayMarch_mjs_eq)
qed

text \<open>
  C9. With zero rotation the distance of the scene function is positive at every point
  with an axis coordinate beyond \<open>1.3\<close> in absolute value, in both shaders.
\<close>

theorem C9_outside_positive:
  assumes "u_pitch_angle U = 0" and "u_yaw_angle U = 0"
    and "1.3 < \<bar>x\<bar> \<or> 1.3 < \<bar>y\<bar> \<or> 1.3 < \<bar>z\<bar>"
  shows "0 < ux (map_frag U (Vec3 x y z)) \<and> 0 < ux (map_mjs U (Vec3 x y z))"
  using map_outside [of U x y z] assms by (simp add: map_mjs_eq)

text \<open>The theorem of C9 at the point \<open>(2, 0, 0)\<close> of the level frame.\<close>

theorem C9_outside_positive_witness:
  "u_pitch_angle frame_level = 0 \<and> u_yaw_angle frame_level = 0
    \<and> (1.3 < \<bar>2 :: real\<bar> \<or> 1.3 < \<bar>0 :: real\<bar> \<or> 1.3 < \<bar>0 :: real\<bar>)
    \<and> 0 < ux (map_frag frame_level (Vec3 2 0 0)) \<and> 0 < ux (map_mjs frame_level (Vec3 2 0 0))"
  using C9_outside_positive [of frame_level 2 0 0] by (simp add: frame_level_def)

text \<open>
  C10. With the normal, the view direction and the light direction equal to one unit
  vector and the diffuse term \<open>1\<close>, the half vector is the normal and \<open>plasticMaterial\<close>
  returns \<open>(1.1, 1.05, 0.9)\<close>, in both shaders: its red component is above \<open>1\<close>.
\<close>

theorem C10_plastic_above_one:
  assumes "length3 n = 1"
  shows "normalize3 (add3 n n) = n
    \<and> plasticMaterial n n n 1 = Vec3 (11 / 10) (21 / 20) (9 / 10)
    \<and> plasticMaterial_mjs n n n 1 = Vec3 (11 / 10) (21 / 20) (9 / 10)
    \<and> 1 < vx (plasticMaterial n n n 1)"
  using assms plasticMaterial_aligned [OF assms]
  by (simp add: material_mjs add3_self normalize3_smul3 del: normalize3.simps)

text \<open>The theorem of C10 at the unit vector \<open>(0, 0, 1)\<close>.\<close>

theorem C10_plastic_above_one_witness:
  "length3 (Vec3 0 0 1) = 1
    \<and> plasticMaterial (Vec3 0 0 1) (Vec3 0 0 1) (Vec3 0 0 1) 1 = Vec3 (11 / 10) (21 / 20) (9 / 10)
    \<and> 1 < vx (plasticMaterial (Vec3 0 0 1) (Vec3 0 0 1) (Vec3 0 0 1) 1)"
  using C10_plastic_above_one [of "Vec3 0 0 1"] by simp

end
